theory Spec2Isabelle
  imports Complex_Main "HOL-Library.Multiset"
begin

section \<open>Data model\<close>

text \<open>
  The development embeds \<^verbatim>\<open>klipper_Beta/BDsensor.py\<close>: the sensor wrapper
  \<^verbatim>\<open>BDsensorEndstopWrapper\<close>, the probing front end \<^verbatim>\<open>PrinterProbe\<close> and the
  batch helper \<^verbatim>\<open>ProbePointsHelper\<close>.

  Python floats are modelled as \<^typ>\<open>real\<close>. Every float comparison the source makes on a
  sensor value compares \<^verbatim>\<open>intr/100.00\<close> with a two-decimal literal, and both sides
  are the correctly rounded doubles of numbers that are equal or at least \<open>0.01\<close> apart, so
  the comparison on reals decides the same way. Writes to standard output (\<^verbatim>\<open>print\<close>),
  sleeps and dwells, and the speed argument of moves carry no state of their own and are left out.
\<close>

type_synonym pos = "real \<times> real \<times> real"

text \<open>
  A probe point \<^verbatim>\<open>(x, y)\<close>. The scan of a line picks its points by the identity of the
  float object that holds \<open>y\<close> (\<^verbatim>\<open>start_point[1] is point[1]\<close>), so a point carries that
  identity between \<open>x\<close> and the value of \<open>y\<close>: two points have the same \<open>y\<close> object when
  the identities are equal, as the points of one row of a generated mesh have.
\<close>

type_synonym point = "real \<times> nat \<times> real"

definition point_x :: "point \<Rightarrow> real" where
  "point_x p = fst p"

definition point_y :: "point \<Rightarrow> real" where
  "point_y p = snd (snd p)"

definition same_y_object :: "point \<Rightarrow> point \<Rightarrow> bool" where
  "same_y_object p q = (fst (snd p) = fst (snd q))"

text \<open>The strings \<^verbatim>\<open>'OFF'\<close>, \<^verbatim>\<open>'FIRST'\<close>, \<^verbatim>\<open>'ON'\<close> assigned to \<^verbatim>\<open>self.multi\<close>.\<close>

datatype multi_state = OFF | FIRST | ON

text \<open>
  Exceptions. The first group are Klipper command errors (\<^verbatim>\<open>printer.command_error\<close>,
  \<^verbatim>\<open>gcmd.error\<close>) with the text the source gives them, \<^verbatim>\<open>MeshDirectionNotX\<close> is the
  \<^verbatim>\<open>config_error\<close> of \<^verbatim>\<open>fast_probe_oneline\<close>, the rest are Python's built-in exceptions.
  All of them derive from \<^verbatim>\<open>Exception\<close>.
\<close>

datatype error =
    SensorDataError real
  | SensorOutOfRange real
  | SamplesExceedTolerance
  | MustHomeBeforeProbe
  | ProbingMoveError string
  | HorizontalMoveZTooLow
  | ManualProbeInProgress
  | MeshDirectionNotX nat
  | AttributeError
  | IndexError
  | TypeError
  | ZeroDivisionError

text \<open>
  The outcome of a call: a returned value, a raised exception, or \<open>Spin\<close> when a loop whose
  end depends on the environment was still running after the number of iterations allowed.
\<close>

datatype 'a result = Ok 'a | Raise error | Spin

text \<open>
  Traffic to the controller: fire-and-forget sends, blocking queries, \<^verbatim>\<open>Z_Move_Live\<close>.
  \<open>SendNum n\<close> is the send of \<^verbatim>\<open>str(n)\<close>.
\<close>

datatype bus_event = Send string | SendNum nat | Query string | ZMove string

text \<open>Lines written with \<^verbatim>\<open>respond_info\<close> and \<^verbatim>\<open>respond_raw\<close>.\<close>

datatype msg =
    Text string
  | ProbeAt pos
  | ErrText error
  | RawInt int
  | Distance real
  | TriggeredAt real

text \<open>What one look at the toolhead and the reactor shows while a line is scanned.\<close>

record observation =
  now :: real
  print_time :: real
  special_queuing_state :: bool
  can_pause :: bool
  fault :: "error option"

record printer =
  position_endstop :: real
  stow_on_each_sample :: bool
  no_stop_probe :: "string option"
  multi :: multi_state
  homeing :: int
  bd_value :: real
  distance :: real
  process_m102 :: int
  reply :: "nat \<Rightarrow> int"
  nrecv :: nat
  bus :: "bus_event list"
  console :: "msg list"
  corrections :: "real list"
  multi_probe_pending :: bool
  offsets :: pos
  toolpos :: pos
  mech :: "nat \<Rightarrow> error + pos"
  nmech :: nat
  obs :: "nat \<Rightarrow> observation"
  tick :: nat
  est_of :: "real \<Rightarrow> real"
  probe_points :: "point list"
  results :: "pos list"
  use_offsets :: bool
  probe_offsets :: pos
  horizontal_move_z :: real
  default_horizontal_move_z :: real
  finalize_callback :: "pos \<Rightarrow> pos list \<Rightarrow> error + string"
  manual_probe_active :: bool

text \<open>Sequencing of calls that may raise: the exception and \<open>Spin\<close> pass through.\<close>

definition bindR :: "'a result \<times> printer \<Rightarrow> ('a \<Rightarrow> printer \<Rightarrow> 'b result \<times> printer) \<Rightarrow> 'b result \<times> printer" where
  "bindR m f = (case m of (Ok v, s) \<Rightarrow> f v s | (Raise e, s) \<Rightarrow> (Raise e, s) | (Spin, s) \<Rightarrow> (Spin, s))"

section \<open>Sensor channel\<close>

definition I2C_BD_send :: "string \<Rightarrow> printer \<Rightarrow> printer" where
  "I2C_BD_send d s = s\<lparr>bus := bus s @ [Send d]\<rparr>"

definition I2C_BD_send_num :: "nat \<Rightarrow> printer \<Rightarrow> printer" where
  "I2C_BD_send_num n s = s\<lparr>bus := bus s @ [SendNum n]\<rparr>"

text \<open>
  \<^verbatim>\<open>int(self.I2C_BD_receive_cmd.send([self.oid, d])['response'])\<close>: the \<open>k\<close>-th query of a
  run is answered by \<open>reply s k\<close>.
\<close>

definition I2C_BD_receive :: "string \<Rightarrow> printer \<Rightarrow> int \<times> printer" where
  "I2C_BD_receive d s = (reply s (nrecv s), s\<lparr>nrecv := nrecv s + 1, bus := bus s @ [Query d]\<rparr>)"

definition Z_Move_Live :: "string \<Rightarrow> printer \<Rightarrow> printer" where
  "Z_Move_Live d s = s\<lparr>bus := bus s @ [ZMove d]\<rparr>"

definition respond :: "msg \<Rightarrow> printer \<Rightarrow> printer" where
  "respond m s = s\<lparr>console := console s @ [m]\<rparr>"

text \<open>
  \<^verbatim>\<open>BD_Sensor_Read\<close> up to the assignment of \<^verbatim>\<open>self.bd_value\<close>: the
  \<^verbatim>\<open>"1018"\<close> of a forced re-read, the query, the one re-query after a code of 1024 or more.
\<close>

definition BD_acquire :: "int \<Rightarrow> printer \<Rightarrow> printer" where
  "BD_acquire fore_r s =
    (let s1 = (if fore_r > 0 then I2C_BD_send ''1018'' s else s);
         r1 = I2C_BD_receive ''32'' s1;
         r2 = (if fst r1 \<ge> 1024 then I2C_BD_receive ''32'' (snd r1) else r1)
     in (snd r2)\<lparr>bd_value := real_of_int (fst r2) / 100\<rparr>)"

text \<open>\<^verbatim>\<open>respond_info\<close> of the message, then \<^verbatim>\<open>raise command_error\<close> of the same message.\<close>

definition sensor_fault :: "error \<Rightarrow> printer \<Rightarrow> real result \<times> printer" where
  "sensor_fault e s = (Raise e, respond (ErrText e) s)"

definition BD_Sensor_Read :: "int \<Rightarrow> printer \<Rightarrow> real result \<times> printer" where
  "BD_Sensor_Read fore_r s =
    (let s2 = BD_acquire fore_r s
     in if fore_r = 0 then
          (if bd_value s2 \<ge> 10.24 then sensor_fault (SensorDataError (bd_value s2)) s2
           else if bd_value s2 > 3.8 then sensor_fault (SensorOutOfRange (bd_value s2)) s2
           else (Ok (bd_value s2), s2))
        else if fore_r = 2 then
          (if bd_value s2 \<ge> 10.24 then sensor_fault (SensorDataError (bd_value s2)) s2
           else (Ok (bd_value s2), s2))
        else (Ok (bd_value s2), s2))"

section \<open>Endstop and multi-probe session of the sensor wrapper\<close>

text \<open>\<^verbatim>\<open>raise_probe\<close> and \<^verbatim>\<open>lower_probe\<close> print and return at once; the code after is dead.\<close>

definition raise_probe :: "printer \<Rightarrow> printer" where
  "raise_probe s = s"

definition lower_probe :: "printer \<Rightarrow> printer" where
  "lower_probe s = s"

text \<open>The result is the integer the source returns: 1 is triggered, 0 is open.\<close>

definition query_endstop :: "printer \<Rightarrow> int result \<times> printer" where
  "query_endstop s =
     bindR (BD_Sensor_Read 2 s) (\<lambda>v s1.
       let s2 = s1\<lparr>bd_value := v\<rparr>
       in (Ok (if bd_value s2 > position_endstop s2 then 0 else 1), s2))"

text \<open>
  \<^verbatim>\<open>home_start\<close> hands the move to the controller's own endstop object and registers
  \<^verbatim>\<open>wait_for_trigger\<close> with the reactor; of this only the flag is state of this file.
\<close>

definition home_start :: "printer \<Rightarrow> printer" where
  "home_start s = s\<lparr>homeing := 1\<rparr>"

definition wait_for_trigger :: "printer \<Rightarrow> unit result \<times> printer" where
  "wait_for_trigger s =
     bindR (BD_Sensor_Read 2 s) (\<lambda>v s1.
       let s2 = Z_Move_Live ''k 5'' s1
       in (Ok (), if multi s2 = OFF then raise_probe s2 else s2))"

definition mcu_multi_probe_begin :: "printer \<Rightarrow> printer" where
  "mcu_multi_probe_begin s = (if stow_on_each_sample s then s else s\<lparr>multi := FIRST\<rparr>)"

definition mcu_multi_probe_finish :: "printer \<Rightarrow> unit result \<times> printer" where
  "mcu_multi_probe_finish s =
     (let s1 = s\<lparr>homeing := 0\<rparr>
      in if stow_on_each_sample s1 then (Ok (), s1)
         else (Ok (), (raise_probe s1)\<lparr>multi := OFF\<rparr>))"

text \<open>
  \<^verbatim>\<open>BDsensorEndstopWrapper.multi_probe_end\<close>; \<open>mcu_multi_probe_finish\<close> is its part
  from \<^verbatim>\<open>self.homeing=0\<close> on. The script \<^verbatim>\<open>G92 Z...\<close> is recorded in \<open>corrections\<close>.
\<close>

definition mcu_multi_probe_end :: "printer \<Rightarrow> unit result \<times> printer" where
  "mcu_multi_probe_end s =
     (let s1 = I2C_BD_send ''1018'' s
      in if homeing s1 = 1 then
           bindR (BD_Sensor_Read 0 s1) (\<lambda>v s2.
             let s3 = s2\<lparr>bd_value := v\<rparr>;
                 s4 = s3\<lparr>corrections := corrections s3 @ [bd_value s3]\<rparr>
             in mcu_multi_probe_finish (respond (TriggeredAt (bd_value s4)) s4))
         else mcu_multi_probe_finish s1)"

definition probe_prepare :: "printer \<Rightarrow> printer" where
  "probe_prepare s =
     (if multi s = OFF \<or> multi s = FIRST then
        (let s1 = lower_probe s in if multi s1 = FIRST then s1\<lparr>multi := ON\<rparr> else s1)
      else s)"

definition probe_finish :: "printer \<Rightarrow> printer" where
  "probe_finish s =
     (let s1 = I2C_BD_send ''1018'' s;
          s2 = (if multi s1 = OFF then raise_probe s1 else s1)
      in Z_Move_Live ''k 100'' s2)"

section \<open>Multi-probe session of the probing front end\<close>

definition multi_probe_begin :: "printer \<Rightarrow> printer" where
  "multi_probe_begin s = (mcu_multi_probe_begin s)\<lparr>multi_probe_pending := True\<rparr>"

definition multi_probe_end :: "printer \<Rightarrow> unit result \<times> printer" where
  "multi_probe_end s =
     (if multi_probe_pending s then mcu_multi_probe_end (s\<lparr>multi_probe_pending := False\<rparr>)
      else (Ok (), s))"

text \<open>\<^verbatim>\<open>_handle_command_error\<close>: the teardown is attempted and an exception of it only logged.\<close>

definition handle_command_error :: "printer \<Rightarrow> printer" where
  "handle_command_error s = snd (multi_probe_end s)"

section \<open>Diagnostic command M102\<close>

text \<open>
  Selector \<open>-6\<close>: the zero-reference sweep. Each of the 40 rounds notifies the sensor four
  times of the round's number; the stepper moves between the rounds are the motion
  collaborator's. The last round sends \<^verbatim>\<open>"1021"\<close>.
\<close>

function zero_sweep :: "nat \<Rightarrow> printer \<Rightarrow> printer" where
  "zero_sweep ncount s =
     (let s1 = I2C_BD_send_num ncount (I2C_BD_send_num ncount
                 (I2C_BD_send_num ncount (I2C_BD_send_num ncount s)))
      in if ncount + 1 \<ge> 40 then
           respond (Text ''You can send M102 S-5 to check the calibration data'')
             (respond (Text ''Calibrate Finished!'') (I2C_BD_send ''1021'' s1))
         else zero_sweep (ncount + 1) s1)"
  by pat_completeness auto
termination
  by (relation "measure (\<lambda>(ncount, s). 40 - ncount)") auto

declare zero_sweep.simps [simp del]

definition MSG_TOO_CLOSE_OR_TOO_HIGH :: string where
  "MSG_TOO_CLOSE_OR_TOO_HIGH =
     ''BDSensor mounted too close or too high!  0.4mm to 2.4mm from BED at zero position is recommended''"

definition MSG_TOO_HIGH :: string where
  "MSG_TOO_HIGH = ''BDSensor mounted too high!  0.4mm to 2.4mm from BED at zero position is recommended''"

definition MSG_TOO_CLOSE :: string where
  "MSG_TOO_CLOSE = ''BDSensor mounted too close! please mount the BDsensor 0.2~0.4mm higher''"

text \<open>
  Selector \<open>-5\<close>: the loop that dumps the raw calibration data, \<open>ncount1\<close> counting the
  samples already dumped. The \<^verbatim>\<open>raise\<close> of the first branch formats a string that has no
  placeholder with \<^verbatim>\<open>% intd\<close>, so what is raised there is Python's \<^verbatim>\<open>TypeError\<close>.
\<close>

function raw_dump :: "nat \<Rightarrow> printer \<Rightarrow> unit result \<times> printer" where
  "raw_dump ncount1 s =
     (let intd = fst (I2C_BD_receive ''3'' s);
          s1 = respond (RawInt intd) (snd (I2C_BD_receive ''3'' s))
      in if ncount1 \<le> 3 \<and> intd > 550 then
           (if intd \<ge> 1015 then (Raise TypeError, respond (Text MSG_TOO_CLOSE_OR_TOO_HIGH) s1)
            else (Ok (), respond (Text MSG_TOO_HIGH) s1))
         else if intd < 45 then (Ok (), respond (Text MSG_TOO_CLOSE) s1)
         else if ncount1 + 1 \<ge> 40 then (Ok (), s1)
         else raw_dump (ncount1 + 1) s1)"
  by pat_completeness auto
termination
  by (relation "measure (\<lambda>(ncount1, s). 40 - ncount1)") auto

declare raw_dump.simps [simp del]

text \<open>Selector \<open>-1\<close>: twenty bytes of the firmware version, each clamped to \<open>0x20..127\<close>.\<close>

function read_version :: "nat \<Rightarrow> int list \<Rightarrow> printer \<Rightarrow> printer" where
  "read_version ncount1 x s =
     (let intd = fst (I2C_BD_receive ''3'' s);
          s1 = snd (I2C_BD_receive ''3'' s);
          intd1 = (if intd > 127 then 127 else intd);
          intd2 = (if intd1 < 32 then 32 else intd1);
          x1 = x @ [intd2]
      in if ncount1 + 1 \<ge> 20 then respond (Text (map char_of x1)) (I2C_BD_send ''1018'' s1)
         else read_version (ncount1 + 1) x1 s1)"
  by pat_completeness auto
termination
  by (relation "measure (\<lambda>(ncount1, x, s). 20 - ncount1)") auto

declare read_version.simps [simp del]

text \<open>
  \<^verbatim>\<open>process_M102\<close>, with \<open>CMD_BD = None\<close> when the command has no readable \<^verbatim>\<open>S\<close>.
  Selector \<open>-7\<close> programs the controller from the kinematics and the bed mesh objects, which
  are not of this file; the model leaves the state as it is there.
\<close>

definition process_M102 :: "int option \<Rightarrow> printer \<Rightarrow> unit result \<times> printer" where
  "process_M102 CMD_BD s =
     (let s0 = s\<lparr>process_m102 := 1\<rparr>;
          finish = (\<lambda>u s'. (Ok (), I2C_BD_send ''1018'' (I2C_BD_send ''1018'' s')))
      in if CMD_BD = Some (- 6) then
           (let s1 = respond (Text (''Calibrating from 0.0mm to 3.9mm, don'' @ [CHR 0x27] @ ''t power off the printer'')) s0;
                s2 = (I2C_BD_send ''1019'' (I2C_BD_send ''1019'' s1))\<lparr>distance := 0.1\<rparr>;
                s3 = respond (Text ''Please Waiting... '') s2
            in finish () (zero_sweep 0 s3))
         else if CMD_BD = Some (- 5) then
           bindR (raw_dump 0 (I2C_BD_send ''1017'' (I2C_BD_send ''1017'' s0))) finish
         else if CMD_BD = Some (- 1) then
           finish () (read_version 0 [] (I2C_BD_send ''1016'' (I2C_BD_send ''1016'' s0)))
         else if CMD_BD = Some (- 2) then
           bindR (BD_Sensor_Read 1 s0) (\<lambda>v s1.
             let s2 = s1\<lparr>bd_value := v\<rparr>;
                 strd = (if bd_value s2 = 10.24 then Text ''BDsensor:Connection Error''
                         else if bd_value s2 \<ge> 3.9 then Text ''BDsensor:Out of measure Range''
                         else Distance (bd_value s2))
             in finish () (respond strd s2))
         else if CMD_BD = Some (- 7) then finish () s0
         else if CMD_BD = Some (- 8) then finish () (I2C_BD_send ''1022'' s0)
         else (Ok (), s0))"

section \<open>Sample aggregation\<close>

definition px :: "pos \<Rightarrow> real" where
  "px p = fst p"

definition py :: "pos \<Rightarrow> real" where
  "py p = fst (snd p)"

definition pz :: "pos \<Rightarrow> real" where
  "pz p = snd (snd p)"

text \<open>\<^verbatim>\<open>_calc_mean\<close>; the division by \<^verbatim>\<open>float(len(positions))\<close> raises on the empty list.\<close>

definition calc_mean :: "pos list \<Rightarrow> pos result" where
  "calc_mean positions =
     (let count = real (length positions)
      in if count = 0 then Raise ZeroDivisionError
         else Ok (sum_list (map px positions) / count,
                  sum_list (map py positions) / count,
                  sum_list (map pz positions) / count))"

text \<open>A bound of a Python slice on a list of length \<open>n\<close>, and the slice \<^verbatim>\<open>xs[i:j]\<close>.\<close>

definition slice_bound :: "int \<Rightarrow> nat \<Rightarrow> nat" where
  "slice_bound i n = (if i < 0 then nat (max 0 (int n + i)) else min (nat i) n)"

definition py_slice :: "int \<Rightarrow> int \<Rightarrow> 'a list \<Rightarrow> 'a list" where
  "py_slice i j xs =
     (let a = slice_bound i (length xs); b = slice_bound j (length xs)
      in take (b - a) (drop a xs))"

text \<open>
  \<^verbatim>\<open>_calc_median\<close>. Python's \<^verbatim>\<open>sorted\<close> is stable and so is \<^const>\<open>sort_key\<close>. For an odd
  length \<open>middle\<close> is an index of the list.
\<close>

definition calc_median :: "pos list \<Rightarrow> pos result" where
  "calc_median positions =
     (let z_sorted = sort_key pz positions;
          middle = length positions div 2
      in if length positions mod 2 = 1 then Ok (z_sorted ! middle)
         else calc_mean (py_slice (int middle - 1) (int middle + 1) z_sorted))"

section \<open>Sample acquisition\<close>

text \<open>
  The parameters of a command after \<^verbatim>\<open>gcmd.get_int\<close>, \<^verbatim>\<open>gcmd.get_float\<close> and
  \<^verbatim>\<open>gcmd.get\<close> have resolved them against the configured defaults.
\<close>

record gcmd =
  command :: string
  sample_count :: int
  sample_retract_dist :: real
  samples_tolerance :: real
  samples_retries :: int
  samples_result :: string
  probe_method :: string
  horizontal_move_z_arg :: "real option"

text \<open>\<^verbatim>\<open>toolhead.manual_move\<close>: the coordinates that are not \<^verbatim>\<open>None\<close> replace the position's.\<close>

definition manual_move :: "real option \<times> real option \<times> real option \<Rightarrow> printer \<Rightarrow> printer" where
  "manual_move coord s =
     s\<lparr>toolpos := (case fst coord of None \<Rightarrow> px (toolpos s) | Some x \<Rightarrow> x,
                   case fst (snd coord) of None \<Rightarrow> py (toolpos s) | Some y \<Rightarrow> y,
                   case snd (snd coord) of None \<Rightarrow> pz (toolpos s) | Some z \<Rightarrow> z)\<rparr>"

text \<open>
  \<^verbatim>\<open>_probe\<close>. The homing check and \<^verbatim>\<open>probing_move\<close> belong to the toolhead and the
  homing module; \<open>mech s k\<close> is what the \<open>k\<close>-th mechanical probe of a run comes to, an
  exception or the position \<^verbatim>\<open>epos[:3]\<close>, where the toolhead then stands.
\<close>

definition PrinterProbe_probe :: "printer \<Rightarrow> pos result \<times> printer" where
  "PrinterProbe_probe s =
     (let s1 = s\<lparr>nmech := nmech s + 1\<rparr>
      in case mech s (nmech s) of
           Inl e \<Rightarrow> (Raise e, s1)
         | Inr epos \<Rightarrow> (Ok epos, respond (ProbeAt epos) (s1\<lparr>toolpos := epos\<rparr>)))"

text \<open>
  The check of the samples tolerance, written twice in \<^verbatim>\<open>run_probe\<close>, on the loop
  variables \<open>(retries, positions)\<close>; \<open>positions\<close> holds the sample just appended, and
  \<open>spread\<close> is \<^verbatim>\<open>max(z_positions) - min(z_positions)\<close>. The heights are reals here and
  doubles in the code, where each of them and their difference carry a rounding error of
  some \<open>10\<^sup>-\<^sup>1\<^sup>6\<close> mm. The check decides as the code does unless the spread of the reals
  and the tolerance are that close: samples that lie exactly one tolerance apart are
  within the tolerance here, and may come out a rounding error above it in the code.
\<close>

definition spread :: "pos list \<Rightarrow> real" where
  "spread positions = (let z_positions = map pz positions in Max (set z_positions) - Min (set z_positions))"

definition tolerance_check :: "gcmd \<Rightarrow> int \<times> pos list \<Rightarrow> printer \<Rightarrow> (int \<times> pos list) result \<times> printer" where
  "tolerance_check g st s =
     (if spread (snd st) > samples_tolerance g then
           (if fst st \<ge> samples_retries g then (Raise SamplesExceedTolerance, s)
            else (Ok (fst st + 1, []), respond (Text ''Probe samples exceed tolerance. Retrying...'') s))
      else (Ok st, s))"

text \<open>The statements of the loop body after the \<^verbatim>\<open>try\<close>: the mechanical probe.\<close>

definition mech_sample :: "gcmd \<Rightarrow> real \<times> real \<Rightarrow> int \<times> pos list \<Rightarrow> printer \<Rightarrow> (int \<times> pos list) result \<times> printer" where
  "mech_sample g probexy st s =
     bindR (PrinterProbe_probe s) (\<lambda>pos s1.
       bindR (tolerance_check g (fst st, snd st @ [pos]) s1) (\<lambda>st' s2.
         (Ok st',
          if int (length (snd st')) < sample_count g then
            manual_move (Some (fst probexy), Some (snd probexy), Some (pz pos + sample_retract_dist g)) s2
          else s2)))"

text \<open>
  One turn of the \<^verbatim>\<open>while\<close> loop. For the two mesh commands (\<^verbatim>\<open>bd_sensor\<close> is
  set by the constructor and never \<^verbatim>\<open>None\<close>) the sensor is read in place inside \<^verbatim>\<open>try\<close>; \<^verbatim>\<open>except Exception\<close> prints what was raised there and the turn
  goes on with the mechanical probe, the list keeping a sample appended before the raise.
\<close>

definition probe_iteration :: "gcmd \<Rightarrow> real \<times> real \<Rightarrow> int \<times> pos list \<Rightarrow> printer \<Rightarrow> (int \<times> pos list) result \<times> printer" where
  "probe_iteration g probexy st s =
     (if command g = ''BED_MESH_CALIBRATE'' \<or> command g = ''QUAD_GANTRY_LEVEL'' then
        (case BD_Sensor_Read 0 s of
           (Raise e, s1) \<Rightarrow> mech_sample g probexy st (respond (ErrText e) s1)
         | (Spin, s1) \<Rightarrow> (Spin, s1)
         | (Ok intd, s1) \<Rightarrow>
             (let pos = (px (toolpos s1), py (toolpos s1), pz (toolpos s1) - intd);
                  s2 = respond (ProbeAt pos) s1;
                  st1 = (fst st, snd st @ [pos])
              in case tolerance_check g st1 s2 of
                   (Raise e, s3) \<Rightarrow> mech_sample g probexy st1 (respond (ErrText e) s3)
                 | r \<Rightarrow> r))
      else mech_sample g probexy st s)"

subsection \<open>What one turn of the loop does to the loop variables\<close>

lemma tolerance_check_step:
  "tolerance_check g st s = (Ok st', s') \<Longrightarrow>
     st' = st \<or> (fst st' = fst st + 1 \<and> fst st < samples_retries g \<and> snd st' = [])"
  by (auto simp: tolerance_check_def Let_def split: if_splits)

lemma tolerance_check_raise:
  "tolerance_check g st s = (Raise e, s') \<Longrightarrow>
     e = SamplesExceedTolerance \<and> s' = s \<and> spread (snd st) > samples_tolerance g \<and> fst st \<ge> samples_retries g"
  by (auto simp: tolerance_check_def split: if_splits)

lemma spread_append: "ps \<noteq> [] \<Longrightarrow> spread ps \<le> spread (ps @ [p])"
proof -
  assume ne: "ps \<noteq> []"
  have "Max (pz ` set ps) \<le> Max (pz ` set (ps @ [p]))"
    by (rule Max_mono) (use ne in auto)
  moreover have "Min (pz ` set (ps @ [p])) \<le> Min (pz ` set ps)"
    by (rule Min_antimono) (use ne in auto)
  ultimately show ?thesis by (simp add: spread_def)
qed

lemma mech_sample_after_raise:
  assumes "spread ps > samples_tolerance g" "r \<ge> samples_retries g" "ps \<noteq> []"
  shows "fst (mech_sample g xy (r, ps) s) \<noteq> Ok st'"
proof -
  have "spread (ps @ [p]) > samples_tolerance g" for p
    using spread_append[OF assms(3), of p] assms(1) by simp
  then show ?thesis using assms(2)
    by (auto simp: mech_sample_def bindR_def tolerance_check_def split: prod.splits result.splits)
qed

lemma mech_sample_step:
  "mech_sample g xy st s = (Ok st', s') \<Longrightarrow>
     (fst st' = fst st \<and> length (snd st') = length (snd st) + 1)
     \<or> (fst st' = fst st + 1 \<and> fst st < samples_retries g \<and> snd st' = [])"
  unfolding mech_sample_def bindR_def
  by (auto split: prod.splits result.splits dest!: tolerance_check_step)

lemma probe_iteration_step:
  "probe_iteration g xy st s = (Ok st', s') \<Longrightarrow>
     (fst st' = fst st \<and> length (snd st') = length (snd st) + 1)
     \<or> (fst st' = fst st + 1 \<and> fst st < samples_retries g \<and> snd st' = [])"
proof -
  assume a: "probe_iteration g xy st s = (Ok st', s')"
  show ?thesis
  proof (cases "command g = ''BED_MESH_CALIBRATE'' \<or> command g = ''QUAD_GANTRY_LEVEL''")
    case False
    with a show ?thesis by (auto simp: probe_iteration_def dest: mech_sample_step)
  next
    case True
    obtain r s1 where rd: "BD_Sensor_Read 0 s = (r, s1)" by (cases "BD_Sensor_Read 0 s")
    show ?thesis
    proof (cases r)
      case (Raise e)
      with a True rd show ?thesis by (auto simp: probe_iteration_def dest: mech_sample_step)
    next
      case Spin
      with a True rd show ?thesis by (auto simp: probe_iteration_def)
    next
      case (Ok intd)
      define pos where "pos = (px (toolpos s1), py (toolpos s1), pz (toolpos s1) - intd)"
      define st1 where "st1 = (fst st, snd st @ [pos])"
      obtain r2 s3 where tc: "tolerance_check g st1 (respond (ProbeAt pos) s1) = (r2, s3)"
        by (cases "tolerance_check g st1 (respond (ProbeAt pos) s1)")
      show ?thesis
      proof (cases r2)
        case (Ok st2)
        with a True rd \<open>r = Ok intd\<close> tc have "st2 = st'"
          by (auto simp: probe_iteration_def Let_def pos_def st1_def)
        with tc Ok have "tolerance_check g st1 (respond (ProbeAt pos) s1) = (Ok st', s3)" by simp
        from tolerance_check_step[OF this] show ?thesis
          by (auto simp: st1_def)
      next
        case Spin
        with tc show ?thesis by (auto simp: tolerance_check_def split: if_splits)
      next
        case (Raise e)
        from tc Raise have "tolerance_check g st1 (respond (ProbeAt pos) s1) = (Raise e, s3)" by simp
        from tolerance_check_raise[OF this]
        have "spread (snd st1) > samples_tolerance g" "fst st1 \<ge> samples_retries g" by auto
        moreover have "snd st1 \<noteq> []" by (simp add: st1_def)
        ultimately have "fst (mech_sample g xy (fst st1, snd st1) (respond (ErrText e) s3)) \<noteq> Ok st'"
          by (rule mech_sample_after_raise)
        moreover from a True rd \<open>r = Ok intd\<close> tc Raise
        have "mech_sample g xy st1 (respond (ErrText e) s3) = (Ok st', s')"
          by (auto simp: probe_iteration_def Let_def pos_def st1_def)
        ultimately show ?thesis by simp
      qed
    qed
  qed
qed

text \<open>
  The \<^verbatim>\<open>while len(positions) < sample_count\<close> loop. Every turn that does not raise
  either adds a sample or spends a retry, which is why the loop ends.
\<close>

function run_probe_loop :: "gcmd \<Rightarrow> real \<times> real \<Rightarrow> int \<times> pos list \<Rightarrow> printer \<Rightarrow> pos list result \<times> printer" where
  "run_probe_loop g probexy st s =
     (if int (length (snd st)) < sample_count g then
        (case probe_iteration g probexy st s of
           (Ok st', s') \<Rightarrow> run_probe_loop g probexy st' s'
         | (Raise e, s') \<Rightarrow> (Raise e, s')
         | (Spin, s') \<Rightarrow> (Spin, s'))
      else (Ok (snd st), s))"
  by pat_completeness auto
termination
proof (relation "measures [\<lambda>(g, xy, st, s). nat (samples_retries g - fst st),
                          \<lambda>(g, xy, st, s). nat (sample_count g) - length (snd st)]", goal_cases)
  case 1
  show ?case by simp
next
  case (2 g probexy st s x1 x2 st')
  from 2(2,3) have "probe_iteration g probexy st s = (Ok st', x2)" by simp
  from probe_iteration_step[OF this] 2(1) show ?case by auto
qed

declare run_probe_loop.simps [simp del]

text \<open>
  \<^verbatim>\<open>run_probe\<close>: the session is begun and ended here when none is pending, and an
  exception leaves the loop without ending it.
\<close>

definition run_probe :: "gcmd \<Rightarrow> printer \<Rightarrow> pos result \<times> printer" where
  "run_probe g s =
     (let must_notify_multi_probe = \<not> multi_probe_pending s;
          s1 = (if must_notify_multi_probe then multi_probe_begin s else s);
          probexy = (px (toolpos s1), py (toolpos s1))
      in bindR (run_probe_loop g probexy (0, []) s1) (\<lambda>positions s2.
           bindR (if must_notify_multi_probe then multi_probe_end s2 else (Ok (), s2)) (\<lambda>u s3.
             if samples_result g = ''median'' then (calc_median positions, s3)
             else (calc_mean positions, s3))))"

section \<open>Batch probing and continuous scan\<close>

text \<open>
  \<^verbatim>\<open>_move_next\<close>; \<^verbatim>\<open>self.probe_points[len(self.results)]\<close> raises when the
  index is not one of the list.
\<close>

definition move_next :: "printer \<Rightarrow> bool result \<times> printer" where
  "move_next s =
     (let s1 = manual_move (None, None, Some (horizontal_move_z s)) s
      in bindR
           (if length (results s1) \<ge> length (probe_points s1) then
              (case finalize_callback s1 (probe_offsets s1) (results s1) of
                 Inl e \<Rightarrow> (Raise e, s1)
               | Inr res \<Rightarrow> if res \<noteq> ''retry'' then (Ok True, s1) else (Ok False, s1\<lparr>results := []\<rparr>))
            else (Ok False, s1))
           (\<lambda>done s2.
              if done then (Ok True, s2)
              else if length (results s2) < length (probe_points s2) then
                (let nextpos = (point_x (probe_points s2 ! length (results s2)),
                                point_y (probe_points s2 ! length (results s2)));
                     nextpos1 = (if use_offsets s2
                                 then (fst nextpos - px (probe_offsets s2), snd nextpos - py (probe_offsets s2))
                                 else nextpos)
                 in (Ok False, manual_move (Some (fst nextpos1), Some (snd nextpos1), None) s2))
              else (Raise IndexError, s2)))"

text \<open>\<^verbatim>\<open>reactor.pause\<close>: the next look at the toolhead is the next observation.\<close>

definition pause :: "printer \<Rightarrow> printer" where
  "pause s = s\<lparr>tick := tick s + 1\<rparr>"

text \<open>
  The polling loop of \<^verbatim>\<open>fast_probe_oneline\<close> on the loop variables
  \<open>(est_time, x_index)\<close>, for the points \<open>oneline_points\<close> of the line, the span
  \<open>line_time\<close> of its move and the time \<open>start_time\<close> at which it began. The first
  argument bounds the number of polls; \<open>fault\<close> is an exception of the toolhead or the
  reactor at the poll. \<^verbatim>\<open>toolhead.get_position()\<close> is the commanded position.
\<close>

fun scan_loop :: "nat \<Rightarrow> point list \<Rightarrow> real \<Rightarrow> real \<Rightarrow> real \<times> nat \<Rightarrow> printer \<Rightarrow> unit result \<times> printer" where
  "scan_loop 0 oneline_points line_time start_time st s = (Spin, s)"
| "scan_loop (Suc fuel) oneline_points line_time start_time st s =
     (let ob = obs s (tick s); n_count = length oneline_points
      in case fault ob of
           Some e \<Rightarrow> (Raise e, s)
         | None \<Rightarrow>
             if \<not> (\<not> special_queuing_state ob \<or> print_time ob \<ge> fst st) then (Ok (), s)
             else if \<not> can_pause ob then (Ok (), s)
             else
               (let est_time = est_of s (now ob)
                in if est_time - start_time \<ge> real (snd st) * line_time / real (n_count - 1) then
                     (if snd st \<ge> n_count then (Raise IndexError, s)
                      else
                        (case BD_Sensor_Read 0 s of
                           (Raise e, s1) \<Rightarrow> (Raise e, s1)
                         | (Spin, s1) \<Rightarrow> (Spin, s1)
                         | (Ok intd, s1) \<Rightarrow>
                             (let pos = (point_x (oneline_points ! snd st), point_y (oneline_points ! snd st),
                                         pz (toolpos s1) - intd);
                                  s2 = respond (ProbeAt pos) s1;
                                  s3 = s2\<lparr>results := results s2 @ [pos]\<rparr>
                              in scan_loop fuel oneline_points line_time start_time
                                   (est_time, snd st + 1) (pause s3))))
                   else scan_loop fuel oneline_points line_time start_time (est_time, snd st) (pause s)))"

declare scan_loop.simps [simp del]

text \<open>
  \<^verbatim>\<open>fast_probe_oneline\<close>. The points of the line are those whose \<open>y\<close> is the very
  object that is the start point's \<open>y\<close>; a point with an equal \<open>y\<close> in another object is
  not of the line.
\<close>

definition fast_probe_oneline :: "nat \<Rightarrow> printer \<Rightarrow> unit result \<times> printer" where
  "fast_probe_oneline fuel s =
     (if length (results s) \<ge> length (probe_points s) then (Raise IndexError, s)
      else
        (let start_point = probe_points s ! length (results s);
             oneline_points = filter (\<lambda>point. same_y_object start_point point) (probe_points s);
             n_count = length oneline_points
         in if n_count \<le> 1 then (Raise (MeshDirectionNotX n_count), s)
            else
              (let end_point = oneline_points ! (n_count - 1);
                   shift = (\<lambda>p. if use_offsets s
                                then (point_x p - px (probe_offsets s), point_y p - py (probe_offsets s))
                                else (point_x p, point_y p));
                   s1 = manual_move (Some (fst (shift start_point)), Some (snd (shift start_point)), None) s;
                   s2 = manual_move (Some (fst (shift end_point)), Some (snd (shift end_point)), None) s1;
                   ob = obs s2 (tick s2)
               in case fault ob of
                    Some e \<Rightarrow> (Raise e, s2)
                  | None \<Rightarrow>
                      (let est_time = est_of s2 (now ob);
                           line_time = print_time ob - est_time
                       in scan_loop fuel oneline_points line_time est_time (est_time, 0) s2))))"

text \<open>The \<^verbatim>\<open>while\<close> loop of \<^verbatim>\<open>fast_probe\<close>, one line a turn, at most \<open>fuel\<close> turns.\<close>

fun fast_probe_lines :: "nat \<Rightarrow> nat \<Rightarrow> printer \<Rightarrow> unit result \<times> printer" where
  "fast_probe_lines 0 polls s =
     (if length (results s) < length (probe_points s) then (Spin, s) else (Ok (), s))"
| "fast_probe_lines (Suc fuel) polls s =
     (if length (results s) < length (probe_points s) then
        (case fast_probe_oneline polls s of
           (Ok u, s1) \<Rightarrow> fast_probe_lines fuel polls s1
         | (Raise e, s1) \<Rightarrow> (Raise e, s1)
         | (Spin, s1) \<Rightarrow> (Spin, s1))
      else (Ok (), s))"

declare fast_probe_lines.simps [simp del]

text \<open>\<^verbatim>\<open>fast_probe\<close>; it returns \<^verbatim>\<open>True\<close>, or \<^verbatim>\<open>None\<close> when the callback says retry.\<close>

definition fast_probe :: "nat \<Rightarrow> printer \<Rightarrow> bool result \<times> printer" where
  "fast_probe fuel s =
     (let s1 = manual_move (None, None, Some (horizontal_move_z s)) s;
          s2 = s1\<lparr>results := []\<rparr>
      in bindR (fast_probe_lines fuel fuel s2) (\<lambda>u s3.
           case finalize_callback s3 (probe_offsets s3) (results s3) of
             Inl e \<Rightarrow> (Raise e, s3)
           | Inr res \<Rightarrow> (Ok (res \<noteq> ''retry''), s3\<lparr>results := []\<rparr>)))"

text \<open>The \<^verbatim>\<open>while 1\<close> loop of \<^verbatim>\<open>start_probe\<close>: one point a turn with \<^verbatim>\<open>run_probe\<close>.\<close>

fun probe_points_loop :: "nat \<Rightarrow> gcmd \<Rightarrow> printer \<Rightarrow> unit result \<times> printer" where
  "probe_points_loop 0 g s = (Spin, s)"
| "probe_points_loop (Suc fuel) g s =
     (case move_next s of
        (Raise e, s1) \<Rightarrow> (Raise e, s1)
      | (Spin, s1) \<Rightarrow> (Spin, s1)
      | (Ok done, s1) \<Rightarrow>
          if done then (Ok (), s1)
          else
            (case run_probe g s1 of
               (Raise e, s2) \<Rightarrow> (Raise e, s2)
             | (Spin, s2) \<Rightarrow> (Spin, s2)
             | (Ok pos, s2) \<Rightarrow> probe_points_loop fuel g (s2\<lparr>results := results s2 @ [pos]\<rparr>)))"

declare probe_points_loop.simps [simp del]

text \<open>
  The \<^verbatim>\<open>try\<close> block of \<^verbatim>\<open>start_probe\<close>: \<open>Ok True\<close> when it returned from
  \<^verbatim>\<open>start_probe\<close>, \<open>Ok False\<close> when control goes on to the loop after it, which is
  so when \<^verbatim>\<open>no_stop_probe\<close> is \<^verbatim>\<open>None\<close> and when \<^verbatim>\<open>AttributeError\<close> was caught.
\<close>

definition fast_attempt :: "nat \<Rightarrow> printer \<Rightarrow> bool result \<times> printer" where
  "fast_attempt fuel s =
     (case no_stop_probe s of
        None \<Rightarrow> (Ok False, s)
      | Some v \<Rightarrow>
          (case bindR (fast_probe fuel s) (\<lambda>r. multi_probe_end) of
             (Raise e, s1) \<Rightarrow> if e = AttributeError then (Ok False, s1) else (Raise e, s1)
           | (Spin, s1) \<Rightarrow> (Spin, s1)
           | (Ok u, s1) \<Rightarrow> (Ok True, s1)))"

text \<open>
  \<^verbatim>\<open>start_probe\<close>. The probe object is the one \<^verbatim>\<open>load_config\<close> registers, so it is
  never \<^verbatim>\<open>None\<close>; the manual helper is the manual probe module's, of which the model
  keeps that one is then in progress.
\<close>

definition start_probe :: "nat \<Rightarrow> gcmd \<Rightarrow> printer \<Rightarrow> unit result \<times> printer" where
  "start_probe fuel g s =
     (if manual_probe_active s then (Raise ManualProbeInProgress, s)
      else
        (let s1 = s\<lparr>results := []\<rparr>;
             s2 = s1\<lparr>horizontal_move_z :=
                       (case horizontal_move_z_arg g of None \<Rightarrow> default_horizontal_move_z s1 | Some z \<Rightarrow> z)\<rparr>
         in if probe_method g \<noteq> ''automatic'' then
              bindR (move_next (s2\<lparr>probe_offsets := (0, 0, 0)\<rparr>)) (\<lambda>done s3.
                (Ok (), if done then s3 else s3\<lparr>manual_probe_active := True\<rparr>))
            else
              (let s3 = s2\<lparr>probe_offsets := offsets s2\<rparr>
               in if horizontal_move_z s3 < pz (probe_offsets s3) then (Raise HorizontalMoveZTooLow, s3)
                  else
                    bindR (if command g = ''BED_MESH_CALIBRATE'' then fast_attempt fuel (multi_probe_begin s3)
                           else (Ok False, multi_probe_begin s3))
                      (\<lambda>returned s4.
                         if returned then (Ok (), s4)
                         else bindR (probe_points_loop fuel g s4) (\<lambda>u. multi_probe_end)))))"

subsection \<open>What a scan is to do, stated on its own\<close>

text \<open>
  The terms the statements about the scan are written in. At poll \<open>i\<close> the elapsed time is
  \<^verbatim>\<open>est_time - start_time\<close>; column \<open>k\<close> of \<open>n\<close> is due from \<^verbatim>\<open>k*line_time/(n-1)\<close> on;
  the loop makes the poll when nothing is raised by the toolhead, the move is not over (the
  lookahead queue is in its normal state, or the print time of the move's end is not before
  the estimate \<open>est\<close> of the poll before) and pausing is allowed.
\<close>

definition elapsed_at :: "printer \<Rightarrow> real \<Rightarrow> nat \<Rightarrow> real" where
  "elapsed_at s start_time i = est_of s (now (obs s i)) - start_time"

definition due_time :: "real \<Rightarrow> nat \<Rightarrow> nat \<Rightarrow> real" where
  "due_time line_time n k = real k * line_time / real (n - 1)"

definition scan_goes_on :: "real \<Rightarrow> observation \<Rightarrow> bool" where
  "scan_goes_on est ob =
     (fault ob = None \<and> (\<not> special_queuing_state ob \<or> print_time ob \<ge> est) \<and> can_pause ob)"

text \<open>
  The estimate the loop holds when it comes to poll \<open>i\<close>: the one it was entered with at
  its first poll \<open>i0\<close>, and the estimate made at the poll before afterwards.
\<close>

definition est_before :: "printer \<Rightarrow> nat \<Rightarrow> real \<Rightarrow> nat \<Rightarrow> real" where
  "est_before s i0 est i = (if i = i0 then est else est_of s (now (obs s (i - 1))))"

text \<open>
  The schedule: between the polls \<open>start\<close> and \<open>stop\<close>, with column \<open>k\<close> the next one,
  \<open>ts\<close> are the polls at which the columns \<open>k\<close>, \<open>k + 1\<close>, ... are sampled when each
  column is sampled at the first poll, after the poll of the column before it, at which the
  elapsed time \<open>E\<close> has reached the time \<open>due\<close> of the column, and no column is due at a
  poll that samples none.
\<close>

fun on_schedule :: "(nat \<Rightarrow> real) \<Rightarrow> (nat \<Rightarrow> real) \<Rightarrow> nat \<Rightarrow> nat \<Rightarrow> nat list \<Rightarrow> nat \<Rightarrow> bool" where
  "on_schedule E due start k [] stop = (\<forall>i\<in>{start..<stop}. E i < due k)"
| "on_schedule E due start k (t # ts) stop =
     (start \<le> t \<and> t < stop \<and> (\<forall>i\<in>{start..<t}. E i < due k) \<and> due k \<le> E t
      \<and> on_schedule E due (Suc t) (Suc k) ts stop)"

text \<open>
  The sensor as a sequence of readings: the distance a read stores when its first query is
  number \<open>nr\<close> (the accepted code divided by 100), the number of queries that read makes,
  the first \<open>m\<close> readings from query \<open>nr\<close> on, and the number of the query after them.
\<close>

definition reading :: "(nat \<Rightarrow> int) \<Rightarrow> nat \<Rightarrow> real" where
  "reading answers nr = real_of_int (if answers nr \<ge> 1024 then answers (nr + 1) else answers nr) / 100"

definition queries :: "(nat \<Rightarrow> int) \<Rightarrow> nat \<Rightarrow> nat" where
  "queries answers nr = (if answers nr \<ge> 1024 then 2 else 1)"

fun readings :: "(nat \<Rightarrow> int) \<Rightarrow> nat \<Rightarrow> nat \<Rightarrow> real list" where
  "readings answers nr 0 = []"
| "readings answers nr (Suc m) = reading answers nr # readings answers (nr + queries answers nr) m"

fun after_reads :: "(nat \<Rightarrow> int) \<Rightarrow> nat \<Rightarrow> nat \<Rightarrow> nat" where
  "after_reads answers nr 0 = nr"
| "after_reads answers nr (Suc m) = after_reads answers (nr + queries answers nr) m"

text \<open>
  How the loop ends at poll \<open>stop\<close> with column \<open>col\<close> the next one and query \<open>nr\<close> the
  sensor's next one, when it was entered at poll \<open>i0\<close> holding the estimate \<open>est\<close> and
  may make polls up to \<open>limit\<close>.
\<close>

definition scan_end ::
  "printer \<Rightarrow> point list \<Rightarrow> real \<Rightarrow> real \<Rightarrow> nat \<Rightarrow> real \<Rightarrow> nat \<Rightarrow> nat \<Rightarrow> nat \<Rightarrow> nat \<Rightarrow> unit result \<Rightarrow> bool" where
  "scan_end s pts T t0 i0 est limit col nr stop r =
     (case r of
        Spin \<Rightarrow> stop = limit
      | Ok u \<Rightarrow> fault (obs s stop) = None \<and> \<not> scan_goes_on (est_before s i0 est stop) (obs s stop)
      | Raise e \<Rightarrow>
          fault (obs s stop) = Some e
          \<or> (scan_goes_on (est_before s i0 est stop) (obs s stop)
             \<and> due_time T (length pts) col \<le> elapsed_at s t0 stop
             \<and> (if length pts \<le> col then e = IndexError
                else reading (reply s) nr > 3.8
                     \<and> e = (if reading (reply s) nr \<ge> 10.24
                            then SensorDataError (reading (reply s) nr)
                            else SensorOutOfRange (reading (reply s) nr)))))"

section \<open>Configurations and environments used in the examples\<close>

text \<open>A sequence that goes through \<open>xs\<close> and stays at \<open>d\<close> after it.\<close>

definition feed :: "'a \<Rightarrow> 'a list \<Rightarrow> nat \<Rightarrow> 'a" where
  "feed d xs k = (if k < length xs then xs ! k else d)"

text \<open>
  The state after \<^verbatim>\<open>load_config\<close>, for a trigger threshold, the flag
  \<^verbatim>\<open>deactivate_on_each_sample\<close> and the answers of the sensor: the initial values are
  those of the three \<^verbatim>\<open>__init__\<close>; no point is configured, the toolhead is idle at the
  origin and a mechanical probe would find the axis not homed.
\<close>

definition load_config :: "real \<Rightarrow> bool \<Rightarrow> (nat \<Rightarrow> int) \<Rightarrow> printer" where
  "load_config endstop stow replies =
     \<lparr>position_endstop = endstop, stow_on_each_sample = stow, no_stop_probe = None,
      multi = OFF, homeing = 0, bd_value = 10.24, distance = 5, process_m102 = 0,
      reply = replies, nrecv = 0, bus = [], console = [], corrections = [],
      multi_probe_pending = False, offsets = (0, 0, 0), toolpos = (0, 0, 0),
      mech = (\<lambda>k. Inl MustHomeBeforeProbe), nmech = 0,
      obs = (\<lambda>k. \<lparr>now = 0, print_time = 0, special_queuing_state = True, can_pause = True,
                     fault = None\<rparr>),
      tick = 0, est_of = (\<lambda>t. t), probe_points = [], results = [], use_offsets = False,
      probe_offsets = (0, 0, 0), horizontal_move_z = 5, default_horizontal_move_z = 5,
      finalize_callback = (\<lambda>off rs. Inr []), manual_probe_active = False\<rparr>"

text \<open>
  The toolhead as the examples see it: the reactor wakes the loop at the times \<open>ts\<close> and
  then stays at the last of them, the queued move ends at print time \<open>pt\<close>, the lookahead
  queue has been flushed and pausing is allowed.
\<close>

definition watch :: "real \<Rightarrow> real list \<Rightarrow> nat \<Rightarrow> observation" where
  "watch pt ts k =
     \<lparr>now = feed (last ts) ts k, print_time = pt, special_queuing_state = True, can_pause = True,
      fault = None\<rparr>"

text \<open>
  The command \<^verbatim>\<open>BED_MESH_CALIBRATE\<close> with one sample a point, and a printer with
  \<^verbatim>\<open>no_stop_probe\<close> configured and three points on one line, which share the object
  (here number 7) of their \<open>y = 0\<close>.
\<close>

definition mesh_calibrate :: gcmd where
  "mesh_calibrate =
     \<lparr>command = ''BED_MESH_CALIBRATE'', sample_count = 1, sample_retract_dist = 2,
      samples_tolerance = 1 / 10, samples_retries = 0, samples_result = ''average'',
      probe_method = ''automatic'', horizontal_move_z_arg = None\<rparr>"

definition three_point_line :: "(nat \<Rightarrow> int) \<Rightarrow> (nat \<Rightarrow> observation) \<Rightarrow> printer" where
  "three_point_line replies look =
     (load_config 1 True replies)
       \<lparr>no_stop_probe := Some ''1'', probe_points := [(0, 7, 0), (10, 7, 0), (20, 7, 0)], obs := look\<rparr>"

text \<open>
  A printer whose first line has five points, which share the object (number 7) of their
  \<open>y = 0\<close>, followed by a point of the next line.
\<close>

definition five_point_line :: "(nat \<Rightarrow> int) \<Rightarrow> (nat \<Rightarrow> observation) \<Rightarrow> printer" where
  "five_point_line replies look =
     (load_config 1 True replies)
       \<lparr>probe_points := [(0, 7, 0), (10, 7, 0), (20, 7, 0), (30, 7, 0), (40, 7, 0), (40, 8, 10)],
        obs := look\<rparr>"

section \<open>Sensor channel: properties\<close>

lemma BD_acquire_fields:
  "bd_value (BD_acquire f s) =
     real_of_int (if reply s (nrecv s) \<ge> 1024 then reply s (nrecv s + 1) else reply s (nrecv s)) / 100"
  "nrecv (BD_acquire f s) = nrecv s + (if reply s (nrecv s) \<ge> 1024 then 2 else 1)"
  "bus (BD_acquire f s) = bus s @ (if f > 0 then [Send ''1018''] else [])
        @ (if reply s (nrecv s) \<ge> 1024 then [Query ''32'', Query ''32''] else [Query ''32''])"
  by (simp_all add: BD_acquire_def I2C_BD_receive_def I2C_BD_send_def Let_def)

lemma BD_acquire_frame:
  "multi (BD_acquire f s) = multi s"
  "homeing (BD_acquire f s) = homeing s"
  "stow_on_each_sample (BD_acquire f s) = stow_on_each_sample s"
  "multi_probe_pending (BD_acquire f s) = multi_probe_pending s"
  "corrections (BD_acquire f s) = corrections s"
  "console (BD_acquire f s) = console s"
  "reply (BD_acquire f s) = reply s"
  "position_endstop (BD_acquire f s) = position_endstop s"
  "results (BD_acquire f s) = results s"
  "toolpos (BD_acquire f s) = toolpos s"
  by (simp_all add: BD_acquire_def I2C_BD_receive_def I2C_BD_send_def Let_def)

lemma BD_Sensor_Read_state:
  "snd (BD_Sensor_Read f s) =
     (case fst (BD_Sensor_Read f s) of Raise e \<Rightarrow> respond (ErrText e) (BD_acquire f s) | r \<Rightarrow> BD_acquire f s)"
  by (simp add: BD_Sensor_Read_def sensor_fault_def Let_def)

lemma BD_Sensor_Read_result:
  "fst (BD_Sensor_Read f s) =
     (let v = bd_value (BD_acquire f s)
      in if (f = 0 \<or> f = 2) \<and> v \<ge> 10.24 then Raise (SensorDataError v)
         else if f = 0 \<and> v > 3.8 then Raise (SensorOutOfRange v)
         else Ok v)"
  by (simp add: BD_Sensor_Read_def sensor_fault_def Let_def)

lemma respond_fields:
  "console (respond m s) = console s @ [m]"
  "multi (respond m s) = multi s" "homeing (respond m s) = homeing s"
  "stow_on_each_sample (respond m s) = stow_on_each_sample s"
  "multi_probe_pending (respond m s) = multi_probe_pending s"
  "corrections (respond m s) = corrections s"
  "reply (respond m s) = reply s" "nrecv (respond m s) = nrecv s" "bus (respond m s) = bus s"
  "bd_value (respond m s) = bd_value s" "position_endstop (respond m s) = position_endstop s"
  "results (respond m s) = results s" "toolpos (respond m s) = toolpos s"
  by (simp_all add: respond_def)

text \<open>
  C2. The value stored by \<^verbatim>\<open>BD_Sensor_Read\<close> is the accepted raw code divided by 100, and
  the call returns exactly that value for every code the mode takes as valid: in mode 0 a
  value of at most 3.8, in mode 2 a value below 10.24, in every other mode any value. For
  the other codes the call raises, and the error carries the same value. The accepted code is
  the first answer when that is below 1024 and otherwise the second answer, whatever the
  second answer is: a first code of 1024 or more costs exactly one more query, never two.
\<close>

theorem BD_Sensor_Read_one_requery:
  "let first = reply s (nrecv s);
       accepted = (if first \<ge> 1024 then reply s (nrecv s + 1) else first);
       v = real_of_int accepted / 100;
       r = BD_Sensor_Read fore_r s
   in bd_value (snd r) = v
      \<and> fst r = (if (fore_r = 0 \<or> fore_r = 2) \<and> v \<ge> 10.24 then Raise (SensorDataError v)
                 else if fore_r = 0 \<and> v > 3.8 then Raise (SensorOutOfRange v)
                 else Ok v)
      \<and> nrecv (snd r) = nrecv s + (if first \<ge> 1024 then 2 else 1)
      \<and> bus (snd r) = bus s @ (if fore_r > 0 then [Send ''1018''] else [])
            @ (if first \<ge> 1024 then [Query ''32'', Query ''32''] else [Query ''32''])"
  unfolding Let_def BD_Sensor_Read_state
  by (simp add: BD_Sensor_Read_result BD_acquire_fields respond_fields Let_def split: result.split)

text \<open>
  In mode 0 the code 100 is returned as 1.0 after one query; in mode 2 the code 500 is
  returned as 5.0, and in mode 0 it is refused as out of range; in mode 1 the sensor answers
  1025 twice: two queries, and 10.25 is returned as it is, where mode 2 raises.
\<close>

theorem BD_Sensor_Read_one_requery_witness:
  "fst (BD_Sensor_Read 0 (load_config 1 True (feed 0 [100, 7]))) = Ok (100 / 100)
   \<and> nrecv (snd (BD_Sensor_Read 0 (load_config 1 True (feed 0 [100, 7])))) = 1
   \<and> bus (snd (BD_Sensor_Read 0 (load_config 1 True (feed 0 [100, 7])))) = [Query ''32'']
   \<and> fst (BD_Sensor_Read 2 (load_config 1 True (feed 0 [500, 7]))) = Ok (500 / 100)
   \<and> bus (snd (BD_Sensor_Read 2 (load_config 1 True (feed 0 [500, 7]))))
       = [Send ''1018'', Query ''32'']
   \<and> fst (BD_Sensor_Read 0 (load_config 1 True (feed 0 [500, 7])))
       = Raise (SensorOutOfRange (500 / 100))
   \<and> fst (BD_Sensor_Read 1 (load_config 1 True (feed 0 [1025, 1025, 7]))) = Ok (1025 / 100)
   \<and> nrecv (snd (BD_Sensor_Read 1 (load_config 1 True (feed 0 [1025, 1025, 7])))) = 2
   \<and> bus (snd (BD_Sensor_Read 1 (load_config 1 True (feed 0 [1025, 1025, 7]))))
       = [Send ''1018'', Query ''32'', Query ''32'']
   \<and> fst (BD_Sensor_Read 2 (load_config 1 True (feed 0 [1025, 1025, 7])))
       = Raise (SensorDataError (1025 / 100))"
  using BD_Sensor_Read_one_requery [of "load_config 1 True (feed 0 [100, 7])" 0]
    BD_Sensor_Read_one_requery [of "load_config 1 True (feed 0 [500, 7])" 2]
    BD_Sensor_Read_one_requery [of "load_config 1 True (feed 0 [500, 7])" 0]
    BD_Sensor_Read_one_requery [of "load_config 1 True (feed 0 [1025, 1025, 7])" 1]
    BD_Sensor_Read_one_requery [of "load_config 1 True (feed 0 [1025, 1025, 7])" 2]
  by (simp add: Let_def load_config_def feed_def)

section \<open>Endstop query\<close>

text \<open>
  C3. \<^verbatim>\<open>query_endstop\<close> makes one forced re-read (the \<^verbatim>\<open>"1018"\<close>, then the query
  and its one possible re-query). A value of 10.24 mm or more raises the data error and no
  state is returned; below it nothing is raised and the answer is 1 (triggered) exactly
  when the value is at most \<^verbatim>\<open>position_endstop\<close>, and 0 (open) otherwise. The
  configuration keeps the threshold below 2.5 mm, so a value between 3.8 and 10.24 is open.
\<close>

theorem query_endstop_threshold:
  assumes "position_endstop s < 2.5"
  shows "let first = reply s (nrecv s);
             v = real_of_int (if first \<ge> 1024 then reply s (nrecv s + 1) else first) / 100;
             r = query_endstop s
         in bus (snd r) = bus s @ [Send ''1018'']
                @ (if first \<ge> 1024 then [Query ''32'', Query ''32''] else [Query ''32''])
            \<and> (if v \<ge> 10.24 then fst r = Raise (SensorDataError v)
                else fst r = Ok (if v \<le> position_endstop s then 1 else 0))
            \<and> (3.8 < v \<and> v < 10.24 \<longrightarrow> fst r = Ok 0)"
proof -
  obtain res s1 where rd: "BD_Sensor_Read 2 s = (res, s1)" by (cases "BD_Sensor_Read 2 s")
  have res: "res = fst (BD_Sensor_Read 2 s)" and s1: "s1 = snd (BD_Sensor_Read 2 s)"
    using rd by simp_all
  show ?thesis
    using assms
    unfolding query_endstop_def bindR_def rd
    by (cases res)
       (auto simp: res s1 BD_Sensor_Read_state BD_Sensor_Read_result BD_acquire_fields
          BD_acquire_frame respond_fields Let_def split: if_splits)
qed

text \<open>
  Threshold 1.0 mm and a reading of 0.8 mm: triggered. The same threshold and a reading of
  5.0 mm, which is out of the measurable range: open, and nothing raised.
\<close>

theorem query_endstop_threshold_witness:
  "position_endstop (load_config 1 True (feed 0 [80])) < 2.5
   \<and> fst (query_endstop (load_config 1 True (feed 0 [80]))) = Ok 1
   \<and> position_endstop (load_config 1 True (feed 0 [500])) < 2.5
   \<and> fst (query_endstop (load_config 1 True (feed 0 [500]))) = Ok 0"
  using query_endstop_threshold [of "load_config 1 True (feed 0 [80])"]
    query_endstop_threshold [of "load_config 1 True (feed 0 [500])"]
  by (simp add: Let_def load_config_def feed_def)

section \<open>Distance report of M102\<close>

text \<open>
  C10. In mode 1 \<^verbatim>\<open>BD_Sensor_Read\<close> raises nothing whatever the sensor answers: it
  returns the accepted code divided by 100 and writes nothing. \<^verbatim>\<open>M102 S-2\<close>, which reads
  in that mode, returns normally too and puts the condition into the one line it writes:
  the connection error at 10.24, the range message from 3.9 on, the distance otherwise.
  Modes 0 and 2 raise the data error from 10.24 on, and mode 0 the range error above 3.8.
\<close>

theorem BD_Sensor_Read_mode_1_never_raises:
  "let first = reply s (nrecv s);
       v = real_of_int (if first \<ge> 1024 then reply s (nrecv s + 1) else first) / 100
   in BD_Sensor_Read 1 s = (Ok v, BD_acquire 1 s)
      \<and> console (BD_acquire 1 s) = console s
      \<and> fst (process_M102 (Some (- 2)) s) = Ok ()
      \<and> console (snd (process_M102 (Some (- 2)) s)) = console s @
           [if v = 10.24 then Text ''BDsensor:Connection Error''
            else if v \<ge> 3.9 then Text ''BDsensor:Out of measure Range''
            else Distance v]
      \<and> (if v \<ge> 10.24 then fst (BD_Sensor_Read 0 s) = Raise (SensorDataError v)
                              \<and> fst (BD_Sensor_Read 2 s) = Raise (SensorDataError v)
          else fst (BD_Sensor_Read 2 s) = Ok v
               \<and> fst (BD_Sensor_Read 0 s) = (if v > 3.8 then Raise (SensorOutOfRange v) else Ok v))"
proof -
  have m1: "BD_Sensor_Read 1 s' = (Ok (bd_value (BD_acquire 1 s')), BD_acquire 1 s')" for s'
    by (simp add: BD_Sensor_Read_def Let_def)
  have f: "process_M102 (Some (- 2)) s =
      (let s1 = BD_acquire 1 (s\<lparr>process_m102 := 1\<rparr>); v = bd_value s1;
           strd = (if v = 10.24 then Text ''BDsensor:Connection Error''
                   else if v \<ge> 3.9 then Text ''BDsensor:Out of measure Range'' else Distance v)
       in (Ok (), I2C_BD_send ''1018'' (I2C_BD_send ''1018'' (respond strd (s1\<lparr>bd_value := v\<rparr>)))))"
    by (simp add: process_M102_def bindR_def m1 Let_def)
  have c: "console (I2C_BD_send d s') = console s'" for d s'
    by (simp add: I2C_BD_send_def)
  show ?thesis
    by (simp add: m1 f c Let_def BD_Sensor_Read_result BD_acquire_fields BD_acquire_frame respond_def)
qed


text \<open>The sensor is not connected and answers 1024 to every query: one line, nothing raised.\<close>

theorem BD_Sensor_Read_mode_1_never_raises_witness:
  "fst (process_M102 (Some (- 2)) (load_config 1 True (feed 1024 []))) = Ok ()
   \<and> console (snd (process_M102 (Some (- 2)) (load_config 1 True (feed 1024 []))))
        = [Text ''BDsensor:Connection Error'']
   \<and> fst (BD_Sensor_Read 0 (load_config 1 True (feed 1024 []))) = Raise (SensorDataError (1024 / 100))"
  using BD_Sensor_Read_mode_1_never_raises [of "load_config 1 True (feed 1024 [])"]
  by (simp add: Let_def load_config_def feed_def)

section \<open>Multi-probe session\<close>

lemma BD_Sensor_Read_frame:
  "multi (snd (BD_Sensor_Read f s)) = multi s"
  "homeing (snd (BD_Sensor_Read f s)) = homeing s"
  "stow_on_each_sample (snd (BD_Sensor_Read f s)) = stow_on_each_sample s"
  "multi_probe_pending (snd (BD_Sensor_Read f s)) = multi_probe_pending s"
  "corrections (snd (BD_Sensor_Read f s)) = corrections s"
  "reply (snd (BD_Sensor_Read f s)) = reply s"
  by (simp_all add: BD_Sensor_Read_state BD_acquire_frame respond_fields split: result.split)

lemma mcu_multi_probe_end_cases:
  "mcu_multi_probe_end s =
     (let s1 = I2C_BD_send ''1018'' s
      in if homeing s = 1 then
           (case fst (BD_Sensor_Read 0 s1) of
              Ok v \<Rightarrow>
                (let s2 = BD_acquire 0 s1;
                     s3 = respond (TriggeredAt v) (s2\<lparr>corrections := corrections s @ [v]\<rparr>)
                 in (Ok (), if stow_on_each_sample s then s3\<lparr>homeing := 0\<rparr>
                            else s3\<lparr>homeing := 0, multi := OFF\<rparr>))
            | Raise e \<Rightarrow> (Raise e, snd (BD_Sensor_Read 0 s1))
            | Spin \<Rightarrow> (Spin, snd (BD_Sensor_Read 0 s1)))
         else (Ok (), if stow_on_each_sample s then s1\<lparr>homeing := 0\<rparr>
                      else s1\<lparr>homeing := 0, multi := OFF\<rparr>))"
proof -
  have h: "homeing (I2C_BD_send d s) = homeing s" "stow_on_each_sample (I2C_BD_send d s) = stow_on_each_sample s"
    "corrections (I2C_BD_send d s) = corrections s" for d
    by (simp_all add: I2C_BD_send_def)
  obtain r s2 where rd: "BD_Sensor_Read 0 (I2C_BD_send ''1018'' s) = (r, s2)"
    by (cases "BD_Sensor_Read 0 (I2C_BD_send ''1018'' s)")
  have s2: "s2 = snd (BD_Sensor_Read 0 (I2C_BD_send ''1018'' s))" and r: "r = fst (BD_Sensor_Read 0 (I2C_BD_send ''1018'' s))"
    using rd by simp_all
  have okv: "r = Ok v \<Longrightarrow> s2 = BD_acquire 0 (I2C_BD_send ''1018'' s) \<and> bd_value (BD_acquire 0 (I2C_BD_send ''1018'' s)) = v" for v
    unfolding s2 r by (auto simp: BD_Sensor_Read_state BD_Sensor_Read_result Let_def split: if_splits)
  show ?thesis
  proof (cases r)
    case (Ok v)
    from okv[OF Ok] have e: "s2 = BD_acquire 0 (I2C_BD_send ''1018'' s)"
      and v: "bd_value (BD_acquire 0 (I2C_BD_send ''1018'' s)) = v" by simp_all
    have id: "(BD_acquire 0 (I2C_BD_send ''1018'' s))\<lparr>bd_value := v\<rparr> = BD_acquire 0 (I2C_BD_send ''1018'' s)"
      using v by (metis printer.update_convs(6) printer.surjective printer.select_convs(6))
    show ?thesis
      unfolding mcu_multi_probe_end_def mcu_multi_probe_finish_def bindR_def Let_def h rd raise_probe_def
      using Ok by (simp add: e id v respond_fields BD_acquire_frame h respond_def)
  next
    case (Raise e)
    then show ?thesis
      unfolding mcu_multi_probe_end_def mcu_multi_probe_finish_def bindR_def Let_def h rd raise_probe_def
      by (simp add: respond_def h)
  next
    case Spin
    then show ?thesis
      unfolding mcu_multi_probe_end_def mcu_multi_probe_finish_def bindR_def Let_def h rd raise_probe_def
      by (simp add: respond_def h)
  qed
qed

lemma mcu_multi_probe_end_pending:
  "multi_probe_pending (snd (mcu_multi_probe_end s)) = multi_probe_pending s"
  by (simp add: mcu_multi_probe_end_cases Let_def BD_Sensor_Read_frame BD_acquire_frame respond_fields
        I2C_BD_send_def split: result.split)

text \<open>
  C4. Ending the session twice is ending it once: after \<^verbatim>\<open>multi_probe_end\<close>, whether it
  returned or raised, a second call returns at once and leaves every field as it is, so the
  pending flag, the session state, the traffic to the sensor and the corrections of the
  axis are those of the first call; and a call with no session pending does nothing. One
  call corrects the axis at most once. For the wrapper's own \<^verbatim>\<open>multi_probe_end\<close>, called
  again after it returned, session state, homing flag and corrections stay as they are.
\<close>

theorem multi_probe_end_idempotent:
  "multi_probe_end (snd (multi_probe_end s)) = (Ok (), snd (multi_probe_end s))
   \<and> (\<not> multi_probe_pending s \<longrightarrow> multi_probe_end s = (Ok (), s))
   \<and> length (corrections (snd (multi_probe_end s))) \<le> length (corrections s) + 1
   \<and> (fst (mcu_multi_probe_end s) = Ok () \<longrightarrow>
        (let s1 = snd (mcu_multi_probe_end s); s2 = snd (mcu_multi_probe_end s1)
         in fst (mcu_multi_probe_end s1) = Ok () \<and> multi s2 = multi s1 \<and> homeing s2 = homeing s1
            \<and> corrections s2 = corrections s1))"
proof -
  have p: "\<not> multi_probe_pending (snd (multi_probe_end s))"
    by (simp add: multi_probe_end_def mcu_multi_probe_end_pending)
  have a: "multi_probe_end (snd (multi_probe_end s)) = (Ok (), snd (multi_probe_end s))"
    using p by (simp add: multi_probe_end_def)
  have b: "\<not> multi_probe_pending s \<longrightarrow> multi_probe_end s = (Ok (), s)"
    by (simp add: multi_probe_end_def)
  have c1: "length (corrections (snd (mcu_multi_probe_end s'))) \<le> length (corrections s') + 1" for s'
    by (simp add: mcu_multi_probe_end_cases Let_def BD_Sensor_Read_frame BD_acquire_frame respond_fields
          I2C_BD_send_def split: result.split)
  have c: "length (corrections (snd (multi_probe_end s))) \<le> length (corrections s) + 1"
    using c1[of "s\<lparr>multi_probe_pending := False\<rparr>"] by (simp add: multi_probe_end_def)
  have h0: "fst (mcu_multi_probe_end s) = Ok () \<Longrightarrow> homeing (snd (mcu_multi_probe_end s)) = 0"
    by (auto simp: mcu_multi_probe_end_cases Let_def respond_def split: result.splits if_splits)
  have st: "stow_on_each_sample (snd (mcu_multi_probe_end s')) = stow_on_each_sample s'" for s'
    by (simp add: mcu_multi_probe_end_cases Let_def BD_Sensor_Read_frame BD_acquire_frame respond_fields
          I2C_BD_send_def split: result.split)
  have m0: "fst (mcu_multi_probe_end s) = Ok () \<Longrightarrow> \<not> stow_on_each_sample s \<Longrightarrow> multi (snd (mcu_multi_probe_end s)) = OFF"
    by (auto simp: mcu_multi_probe_end_cases Let_def respond_def split: result.splits if_splits)
  have again: "homeing s' = 0 \<Longrightarrow> mcu_multi_probe_end s' =
      (Ok (), if stow_on_each_sample s' then (I2C_BD_send ''1018'' s')\<lparr>homeing := 0\<rparr>
              else (I2C_BD_send ''1018'' s')\<lparr>homeing := 0, multi := OFF\<rparr>)" for s'
    by (simp add: mcu_multi_probe_end_cases Let_def)
  have d: "fst (mcu_multi_probe_end s) = Ok () \<longrightarrow>
        (let s1 = snd (mcu_multi_probe_end s); s2 = snd (mcu_multi_probe_end s1)
         in fst (mcu_multi_probe_end s1) = Ok () \<and> multi s2 = multi s1 \<and> homeing s2 = homeing s1
            \<and> corrections s2 = corrections s1)"
  proof
    assume ok: "fst (mcu_multi_probe_end s) = Ok ()"
    show "let s1 = snd (mcu_multi_probe_end s); s2 = snd (mcu_multi_probe_end s1)
         in fst (mcu_multi_probe_end s1) = Ok () \<and> multi s2 = multi s1 \<and> homeing s2 = homeing s1
            \<and> corrections s2 = corrections s1"
      using h0[OF ok] m0[OF ok] st[of s]
      by (simp add: Let_def again I2C_BD_send_def)
  qed
  from a b c d show ?thesis by blast
qed


lemmas session_defs =
  multi_probe_end_def mcu_multi_probe_end_def mcu_multi_probe_finish_def multi_probe_begin_def
  mcu_multi_probe_begin_def probe_prepare_def probe_finish_def home_start_def lower_probe_def
  raise_probe_def bindR_def BD_Sensor_Read_def BD_acquire_def sensor_fault_def I2C_BD_send_def
  I2C_BD_receive_def Z_Move_Live_def respond_def Let_def

text \<open>
  A batch that homed on the probe, ended twice: the first call reads 0.8 mm and corrects the
  axis once, the second changes nothing. And an end with no session pending.
\<close>

theorem multi_probe_end_idempotent_witness:
  "multi_probe_pending (home_start (probe_prepare (multi_probe_begin (load_config 1 False (feed 0 [80])))))
   \<and> fst (multi_probe_end (home_start (probe_prepare (multi_probe_begin (load_config 1 False (feed 0 [80])))))) = Ok ()
   \<and> corrections (snd (multi_probe_end (home_start (probe_prepare (multi_probe_begin (load_config 1 False (feed 0 [80]))))))) = [80 / 100]
   \<and> multi_probe_end (snd (multi_probe_end (home_start (probe_prepare (multi_probe_begin (load_config 1 False (feed 0 [80])))))))
       = (Ok (), snd (multi_probe_end (home_start (probe_prepare (multi_probe_begin (load_config 1 False (feed 0 [80])))))))
   \<and> \<not> multi_probe_pending (load_config 1 False (feed 0 [80]))
   \<and> multi_probe_end (load_config 1 False (feed 0 [80])) = (Ok (), load_config 1 False (feed 0 [80]))
   \<and> fst (mcu_multi_probe_end (home_start (load_config 1 False (feed 0 [80])))) = Ok ()
   \<and> corrections (snd (mcu_multi_probe_end (snd (mcu_multi_probe_end (home_start (load_config 1 False (feed 0 [80]))))))) = [80 / 100]"
  using multi_probe_end_idempotent [of "home_start (probe_prepare (multi_probe_begin (load_config 1 False (feed 0 [80]))))"]
    multi_probe_end_idempotent [of "load_config 1 False (feed 0 [80])"]
    multi_probe_end_idempotent [of "home_start (load_config 1 False (feed 0 [80]))"]
  by (simp add: session_defs load_config_def feed_def)

lemma raw_dump_frame:
  "multi (snd (raw_dump n s)) = multi s \<and> reply (snd (raw_dump n s)) = reply s"
proof (induction n s rule: raw_dump.induct)
  case (1 ncount1 s)
  show ?case
    using 1
    by (subst (1 2) raw_dump.simps) (simp add: Let_def I2C_BD_receive_def respond_def)
qed

lemma zero_sweep_frame: "multi (zero_sweep n s) = multi s"
proof (induction n s rule: zero_sweep.induct)
  case (1 ncount s)
  show ?case
    using 1
    by (subst zero_sweep.simps) (simp add: Let_def I2C_BD_send_def I2C_BD_send_num_def respond_def)
qed

lemma read_version_frame: "multi (read_version n x s) = multi s"
proof (induction n x s rule: read_version.induct)
  case (1 ncount1 x s)
  show ?case
    using 1
    by (subst read_version.simps) (simp add: Let_def I2C_BD_send_def I2C_BD_receive_def respond_def)
qed

lemma bindR_multi:
  assumes "multi (snd m) = x" and "\<And>v s1. multi (snd (f v s1)) = multi s1"
  shows "multi (snd (bindR m f)) = x"
  using assms by (cases m) (auto simp: bindR_def split: result.split)

lemma process_M102_multi: "multi (snd (process_M102 c s)) = multi s"
proof -
  have a: "multi (I2C_BD_send d s') = multi s'" for d s' by (simp add: I2C_BD_send_def)
  have b: "multi (snd (bindR (raw_dump 0 s') (\<lambda>u s'. (Ok (), I2C_BD_send ''1018'' (I2C_BD_send ''1018'' s'))))) = multi s'" for s'
    by (rule bindR_multi) (simp_all add: raw_dump_frame a)
  have c: "multi (snd (bindR (BD_Sensor_Read 1 s') (\<lambda>v s1. (Ok (), I2C_BD_send ''1018'' (I2C_BD_send ''1018'' (respond (g v s1) (s1\<lparr>bd_value := v\<rparr>))))))) = multi s'" for s' g
    by (rule bindR_multi) (simp_all add: BD_Sensor_Read_frame a respond_fields)
  show ?thesis
    by (simp add: process_M102_def Let_def a b c zero_sweep_frame read_version_frame respond_fields)
qed

text \<open>
  C8 as the code has it. The state is one of \<open>OFF\<close>, \<open>FIRST\<close>, \<open>ON\<close> by its type. Of the
  wrapper's operations, begin sets \<open>FIRST\<close> whatever the state was, unless stowing on every
  sample is configured, when it changes nothing; \<^verbatim>\<open>probe_prepare\<close> turns \<open>FIRST\<close> into
  \<open>ON\<close> and leaves \<open>OFF\<close> and \<open>ON\<close>; end sets \<open>OFF\<close> whatever the state was, unless
  stowing is configured or its sensor read raised, when the state stays; and no other
  operation changes the state.
\<close>

theorem multi_transitions:
  "multi (mcu_multi_probe_begin s) = (if stow_on_each_sample s then multi s else FIRST)
   \<and> multi (probe_prepare s) = (if multi s = FIRST then ON else multi s)
   \<and> multi (snd (mcu_multi_probe_end s)) =
        (if stow_on_each_sample s \<or> fst (mcu_multi_probe_end s) \<noteq> Ok () then multi s else OFF)
   \<and> multi (probe_finish s) = multi s
   \<and> multi (home_start s) = multi s
   \<and> multi (snd (wait_for_trigger s)) = multi s
   \<and> multi (snd (query_endstop s)) = multi s
   \<and> multi (snd (BD_Sensor_Read fore_r s)) = multi s
   \<and> multi (snd (process_M102 CMD_BD s)) = multi s"
proof -
  have a: "multi (mcu_multi_probe_begin s) = (if stow_on_each_sample s then multi s else FIRST)"
    by (simp add: mcu_multi_probe_begin_def)
  have b: "multi (probe_prepare s) = (if multi s = FIRST then ON else multi s)"
    by (cases "multi s") (simp_all add: probe_prepare_def lower_probe_def Let_def)
  have c: "multi (snd (mcu_multi_probe_end s)) =
        (if stow_on_each_sample s \<or> fst (mcu_multi_probe_end s) \<noteq> Ok () then multi s else OFF)"
    by (simp add: mcu_multi_probe_end_cases Let_def BD_Sensor_Read_frame BD_acquire_frame
          I2C_BD_send_def respond_def split: result.split)
  have d: "multi (probe_finish s) = multi s"
    by (simp add: probe_finish_def raise_probe_def I2C_BD_send_def Z_Move_Live_def Let_def)
  have e: "multi (home_start s) = multi s"
    by (simp add: home_start_def)
  have rd: "multi (snd (bindR (BD_Sensor_Read 2 s) f)) = multi s"
    if "\<And>v s1. multi (snd (f v s1)) = multi s1" for f :: "real \<Rightarrow> printer \<Rightarrow> 'b result \<times> printer"
    using BD_Sensor_Read_frame(1)[of 2 s] that
    by (cases "BD_Sensor_Read 2 s") (auto simp: bindR_def split: result.split)
  have f: "multi (snd (wait_for_trigger s)) = multi s"
    unfolding wait_for_trigger_def
    by (rule rd) (simp add: Let_def Z_Move_Live_def raise_probe_def)
  have g: "multi (snd (query_endstop s)) = multi s"
    unfolding query_endstop_def
    by (rule rd) (simp add: Let_def)
  from a b c d e f g BD_Sensor_Read_frame(1)[of fore_r s] process_M102_multi[of CMD_BD s]
  show ?thesis by blast
qed

text \<open>A batch in order: \<open>OFF\<close>, \<open>FIRST\<close> after begin, \<open>ON\<close> after the first prepare, \<open>OFF\<close> after end.\<close>

theorem multi_transitions_witness:
  "multi (load_config 1 False (feed 0 [])) = OFF
   \<and> multi (mcu_multi_probe_begin (load_config 1 False (feed 0 []))) = FIRST
   \<and> multi (probe_prepare (mcu_multi_probe_begin (load_config 1 False (feed 0 [])))) = ON
   \<and> multi (snd (mcu_multi_probe_end (probe_prepare (mcu_multi_probe_begin (load_config 1 False (feed 0 [])))))) = OFF
   \<and> multi (mcu_multi_probe_begin (load_config 1 True (feed 0 []))) = OFF"
  using multi_transitions [of "load_config 1 False (feed 0 [])"]
    multi_transitions [of "mcu_multi_probe_begin (load_config 1 False (feed 0 []))"]
    multi_transitions [of "probe_prepare (mcu_multi_probe_begin (load_config 1 False (feed 0 [])))"]
    multi_transitions [of "load_config 1 True (feed 0 [])"]
  by (simp add: session_defs load_config_def)

text \<open>
  C8 as stated does not hold: begin is not guarded. Called in a batch whose first probe was
  prepared it takes the state from \<open>ON\<close> to \<open>FIRST\<close>. The front end reaches this with
  nothing pending: a batch that homed on the probe is ended while the sensor is not
  connected, the read of the end raises and leaves the state \<open>ON\<close> with the pending flag
  cleared, and the next begin goes from \<open>ON\<close> to \<open>FIRST\<close>.
\<close>

theorem multi_transition_ON_FIRST:
  "multi (probe_prepare (mcu_multi_probe_begin (load_config 1 False (feed 0 [])))) = ON
   \<and> multi (mcu_multi_probe_begin (probe_prepare (mcu_multi_probe_begin (load_config 1 False (feed 0 []))))) = FIRST
   \<and> multi (home_start (probe_prepare (multi_probe_begin (load_config 1 False (feed 1024 []))))) = ON
   \<and> fst (multi_probe_end (home_start (probe_prepare (multi_probe_begin (load_config 1 False (feed 1024 []))))))
       = Raise (SensorDataError (1024 / 100))
   \<and> multi (snd (multi_probe_end (home_start (probe_prepare (multi_probe_begin (load_config 1 False (feed 1024 []))))))) = ON
   \<and> \<not> multi_probe_pending (snd (multi_probe_end (home_start (probe_prepare (multi_probe_begin (load_config 1 False (feed 1024 [])))))))
   \<and> multi (multi_probe_begin (snd (multi_probe_end (home_start (probe_prepare (multi_probe_begin (load_config 1 False (feed 1024 [])))))))) = FIRST"
  by (simp add: session_defs load_config_def feed_def)

section \<open>Raw-value dump of M102\<close>

lemma raw_dump_step:
  "raw_dump n s =
     (let intd = reply s (nrecv s);
          s1 = s\<lparr>nrecv := nrecv s + 1, bus := bus s @ [Query ''3''], console := console s @ [RawInt intd]\<rparr>
      in if n \<le> 3 \<and> intd > 550 then
           (if intd \<ge> 1015 then (Raise TypeError, respond (Text MSG_TOO_CLOSE_OR_TOO_HIGH) s1)
            else (Ok (), respond (Text MSG_TOO_HIGH) s1))
         else if intd < 45 then (Ok (), respond (Text MSG_TOO_CLOSE) s1)
         else if n + 1 \<ge> 40 then (Ok (), s1)
         else raw_dump (n + 1) s1)"
  by (subst raw_dump.simps) (simp add: Let_def I2C_BD_receive_def respond_def)

text \<open>The dump raises exactly when one of its first four samples is 1015 or more and every
  sample before it was between 45 and 550, so that the dump got that far.\<close>

lemma raw_dump_raises:
  "fst (raw_dump n s) = Raise e \<longleftrightarrow>
     e = TypeError \<and> (\<exists>i. n + i \<le> 3 \<and> reply s (nrecv s + i) \<ge> 1015
        \<and> (\<forall>j<i. 45 \<le> reply s (nrecv s + j) \<and> reply s (nrecv s + j) \<le> 550))"
proof (induction n s rule: raw_dump.induct)
  case (1 n s)
  let ?intd = "reply s (nrecv s)"
  let ?s1 = "s\<lparr>nrecv := nrecv s + 1, bus := bus s @ [Query ''3''], console := console s @ [RawInt ?intd]\<rparr>"
  let ?R = "\<lambda>n s. \<exists>i. n + i \<le> 3 \<and> reply s (nrecv s + i) \<ge> 1015
        \<and> (\<forall>j<i. 45 \<le> reply s (nrecv s + j) \<and> reply s (nrecv s + j) \<le> 550)"
  consider (high) "n \<le> 3" "?intd > 550"
    | (low) "\<not> (n \<le> 3 \<and> ?intd > 550)" "?intd < 45"
    | (last) "\<not> (n \<le> 3 \<and> ?intd > 550)" "\<not> ?intd < 45" "n + 1 \<ge> 40"
    | (more) "\<not> (n \<le> 3 \<and> ?intd > 550)" "\<not> ?intd < 45" "\<not> n + 1 \<ge> 40"
    by blast
  then show ?case
  proof cases
    case high
    have "?R n s \<longleftrightarrow> ?intd \<ge> 1015"
    proof
      assume "?R n s"
      then obtain i where i: "n + i \<le> 3" "reply s (nrecv s + i) \<ge> 1015"
        "\<forall>j<i. 45 \<le> reply s (nrecv s + j) \<and> reply s (nrecv s + j) \<le> 550" by blast
      show "?intd \<ge> 1015"
      proof (cases i)
        case 0 with i show ?thesis by simp
      next
        case (Suc k) with i(3) have "?intd \<le> 550" by force
        with high show ?thesis by simp
      qed
    next
      assume "?intd \<ge> 1015"
      with high show "?R n s" by (intro exI[of _ 0]) simp
    qed
    with high show ?thesis
      by (subst raw_dump_step) (auto simp: Let_def)
  next
    case low
    have "\<not> ?R n s"
    proof
      assume "?R n s"
      then obtain i where i: "n + i \<le> 3" "reply s (nrecv s + i) \<ge> 1015"
        "\<forall>j<i. 45 \<le> reply s (nrecv s + j) \<and> reply s (nrecv s + j) \<le> 550" by blast
      show False
      proof (cases i)
        case 0 with i low show ?thesis by simp
      next
        case (Suc k) with i(3) have "45 \<le> ?intd" by force
        with low show ?thesis by simp
      qed
    qed
    with low show ?thesis
      by (subst raw_dump_step) (auto simp: Let_def)
  next
    case last
    then have "\<not> ?R n s" by auto
    with last show ?thesis
      by (subst raw_dump_step) (auto simp: Let_def)
  next
    case more
    have step: "raw_dump n s = raw_dump (n + 1) ?s1"
      using more by (subst raw_dump_step) (auto simp: Let_def)
    have ih: "fst (raw_dump (n + 1) ?s1) = Raise e \<longleftrightarrow> e = TypeError \<and> ?R (n + 1) ?s1"
      using "1.IH"[of ?intd ?s1] more
      by (simp add: I2C_BD_receive_def respond_def)
    have "?R (n + 1) ?s1 \<longleftrightarrow> ?R n s"
    proof
      assume "?R (n + 1) ?s1"
      then obtain i where i: "n + 1 + i \<le> 3" "reply s (nrecv s + 1 + i) \<ge> 1015"
        "\<forall>j<i. 45 \<le> reply s (nrecv s + 1 + j) \<and> reply s (nrecv s + 1 + j) \<le> 550" by auto
      have "\<forall>j<Suc i. 45 \<le> reply s (nrecv s + j) \<and> reply s (nrecv s + j) \<le> 550"
      proof (intro allI impI)
        fix j assume "j < Suc i"
        show "45 \<le> reply s (nrecv s + j) \<and> reply s (nrecv s + j) \<le> 550"
        proof (cases j)
          case 0 with more i(1) show ?thesis by simp
        next
          case (Suc k) with \<open>j < Suc i\<close> i(3) show ?thesis by simp
        qed
      qed
      with i(1,2) show "?R n s" by (intro exI[of _ "Suc i"]) simp
    next
      assume "?R n s"
      then obtain i where i: "n + i \<le> 3" "reply s (nrecv s + i) \<ge> 1015"
        "\<forall>j<i. 45 \<le> reply s (nrecv s + j) \<and> reply s (nrecv s + j) \<le> 550" by blast
      show "?R (n + 1) ?s1"
      proof (cases i)
        case 0 with i more show ?thesis by simp
      next
        case (Suc k)
        with i have "n + 1 + k \<le> 3" "reply s (nrecv s + 1 + k) \<ge> 1015"
          "\<forall>j<k. 45 \<le> reply s (nrecv s + 1 + j) \<and> reply s (nrecv s + 1 + j) \<le> 550"
          by (simp, simp, metis Suc_less_eq add_Suc_right add_Suc Suc_eq_plus1)
        then show ?thesis by (intro exI[of _ k]) simp
      qed
    qed
    with step ih show ?thesis by simp
  qed
qed

text \<open>
  C9 as the code has it. At the sample with index \<open>n\<close> (\<open>n\<close> samples were dumped before
  it) and raw value \<open>intd\<close>: if \<open>n \<le> 3\<close> and \<open>intd \<ge> 1015\<close> the dump writes "mounted too
  close or too high" and raises; if \<open>n \<le> 3\<close> and \<open>550 < intd < 1015\<close> it writes "mounted
  too high" and ends; otherwise, if \<open>intd < 45\<close> it writes "mounted too close" and ends;
  otherwise the sample passes and the dump goes on to the next one, up to 40 samples. The
  high checks are made on the first four samples only. Nothing else raises: \<^verbatim>\<open>M102 S-5\<close>
  raises exactly when one of the first four samples is 1015 or more and the samples before
  it all passed.
\<close>

theorem raw_dump_thresholds:
  "(let intd = reply s (nrecv s);
        s1 = s\<lparr>nrecv := nrecv s + 1, bus := bus s @ [Query ''3''], console := console s @ [RawInt intd]\<rparr>
    in if n \<le> 3 \<and> intd \<ge> 1015 then
         raw_dump n s = (Raise TypeError, respond (Text MSG_TOO_CLOSE_OR_TOO_HIGH) s1)
       else if n \<le> 3 \<and> intd > 550 then raw_dump n s = (Ok (), respond (Text MSG_TOO_HIGH) s1)
       else if intd < 45 then raw_dump n s = (Ok (), respond (Text MSG_TOO_CLOSE) s1)
       else if n + 1 \<ge> 40 then raw_dump n s = (Ok (), s1)
       else raw_dump n s = raw_dump (n + 1) s1)
   \<and> (fst (process_M102 (Some (- 5)) s) = Raise e \<longleftrightarrow>
        e = TypeError \<and> (\<exists>i\<le>3. reply s (nrecv s + i) \<ge> 1015
          \<and> (\<forall>j<i. 45 \<le> reply s (nrecv s + j) \<and> reply s (nrecv s + j) \<le> 550)))"
proof -
  have a: "(let intd = reply s (nrecv s);
        s1 = s\<lparr>nrecv := nrecv s + 1, bus := bus s @ [Query ''3''], console := console s @ [RawInt intd]\<rparr>
    in if n \<le> 3 \<and> intd \<ge> 1015 then
         raw_dump n s = (Raise TypeError, respond (Text MSG_TOO_CLOSE_OR_TOO_HIGH) s1)
       else if n \<le> 3 \<and> intd > 550 then raw_dump n s = (Ok (), respond (Text MSG_TOO_HIGH) s1)
       else if intd < 45 then raw_dump n s = (Ok (), respond (Text MSG_TOO_CLOSE) s1)
       else if n + 1 \<ge> 40 then raw_dump n s = (Ok (), s1)
       else raw_dump n s = raw_dump (n + 1) s1)"
    by (subst (1 2 3 4 5) raw_dump_step) (simp add: Let_def)
  define s0 where "s0 = I2C_BD_send ''1017'' (I2C_BD_send ''1017'' (s\<lparr>process_m102 := 1\<rparr>))"
  have s0: "reply s0 = reply s" "nrecv s0 = nrecv s"
    by (simp_all add: s0_def I2C_BD_send_def)
  have "fst (process_M102 (Some (- 5)) s) = Raise e \<longleftrightarrow> fst (raw_dump 0 s0) = Raise e"
    by (cases "raw_dump 0 s0") (auto simp: process_M102_def Let_def bindR_def s0_def split: result.split)
  also have "\<dots> \<longleftrightarrow> e = TypeError \<and> (\<exists>i\<le>3. reply s (nrecv s + i) \<ge> 1015
          \<and> (\<forall>j<i. 45 \<le> reply s (nrecv s + j) \<and> reply s (nrecv s + j) \<le> 550))"
    by (simp add: raw_dump_raises s0)
  finally show ?thesis using a by blast
qed

lemmas M102_defs =
  process_M102_def raw_dump_step bindR_def I2C_BD_send_def I2C_BD_receive_def respond_def Let_def

text \<open>Two samples of 100 and then 1015, the third of the first four: the dump raises.\<close>

theorem raw_dump_thresholds_witness:
  "fst (process_M102 (Some (- 5)) (load_config 1 True (feed 100 [100, 100, 1015]))) = Raise TypeError
   \<and> raw_dump 0 (load_config 1 True (feed 100 [600])) =
       (Ok (), (load_config 1 True (feed 100 [600]))
                 \<lparr>nrecv := 1, bus := [Query ''3''], console := [RawInt 600, Text MSG_TOO_HIGH]\<rparr>)"
  using raw_dump_thresholds [where n = 0 and s = "load_config 1 True (feed 100 [100, 100, 1015])" and e = TypeError]
    raw_dump_thresholds [where n = 0 and s = "load_config 1 True (feed 100 [600])" and e = TypeError]
  by (simp add: M102_defs load_config_def feed_def)

text \<open>
  C9 as stated does not hold. A first sample of exactly 1015 is not "mounted too high": it
  raises. And a value of 600 that comes as the sixth sample is not reported at all: the dump
  goes on to the next sample, here one of 10, which ends it as "mounted too close".
\<close>

theorem raw_dump_boundary_1015_and_late_sample:
  "fst (process_M102 (Some (- 5)) (load_config 1 True (feed 100 [1015]))) = Raise TypeError
   \<and> console (snd (process_M102 (Some (- 5)) (load_config 1 True (feed 100 [1015]))))
       = [RawInt 1015, Text MSG_TOO_CLOSE_OR_TOO_HIGH]
   \<and> fst (process_M102 (Some (- 5)) (load_config 1 True (feed 100 [100, 100, 100, 100, 100, 600, 10]))) = Ok ()
   \<and> console (snd (process_M102 (Some (- 5)) (load_config 1 True (feed 100 [100, 100, 100, 100, 100, 600, 10]))))
       = [RawInt 100, RawInt 100, RawInt 100, RawInt 100, RawInt 100, RawInt 600, RawInt 10, Text MSG_TOO_CLOSE]"
  by (simp add: M102_defs load_config_def feed_def)

section \<open>Aggregation of the samples\<close>

lemma middle_pair:
  assumes "1 \<le> m" "m < length zs"
  shows "py_slice (int m - 1) (int m + 1) zs = [zs ! (m - 1), zs ! m]"
proof -
  have a: "slice_bound (int m - 1) (length zs) = m - 1"
    using assms by (simp add: slice_bound_def nat_diff_distrib')
  have b: "slice_bound (int m + 1) (length zs) = m + 1"
    using assms by (simp add: slice_bound_def nat_add_distrib)
  have d1: "drop (m - 1) zs = zs ! (m - 1) # drop m zs"
    using assms Cons_nth_drop_Suc[of "m - 1" zs] by simp
  have d2: "drop m zs = zs ! m # drop (Suc m) zs"
    using assms Cons_nth_drop_Suc[of m zs] by simp
  have w: "m + 1 - (m - 1) = Suc (Suc 0)" using assms by simp
  have "drop (m - 1) zs = zs ! (m - 1) # zs ! m # drop (Suc m) zs"
    using d1 d2 by simp
  then have "take (Suc (Suc 0)) (drop (m - 1) zs) = [zs ! (m - 1), zs ! m]"
    by simp
  then show ?thesis
    by (simp only: py_slice_def a b w Let_def)
qed

text \<open>
  C5. For a list of samples that is not empty the mean is the average of each axis. The
  median takes the list sorted by \<open>z\<close> (a permutation of the samples, in non-decreasing
  \<open>z\<close>): its middle element when the length is odd, and for an even length the mean, axis
  by axis, of the two elements in the middle.
\<close>

theorem calc_mean_median:
  assumes "positions \<noteq> []"
  shows "calc_mean positions =
           Ok (sum_list (map px positions) / real (length positions),
               sum_list (map py positions) / real (length positions),
               sum_list (map pz positions) / real (length positions))
         \<and> sorted (map pz (sort_key pz positions))
         \<and> mset (sort_key pz positions) = mset positions
         \<and> (odd (length positions) \<longrightarrow>
              calc_median positions = Ok (sort_key pz positions ! (length positions div 2)))
         \<and> (even (length positions) \<longrightarrow>
              calc_median positions =
                (let a = sort_key pz positions ! (length positions div 2 - 1);
                     b = sort_key pz positions ! (length positions div 2)
                 in Ok ((px a + px b) / 2, (py a + py b) / 2, (pz a + pz b) / 2)))"
proof -
  let ?zs = "sort_key pz positions"
  let ?m = "length positions div 2"
  have mean: "calc_mean positions =
           Ok (sum_list (map px positions) / real (length positions),
               sum_list (map py positions) / real (length positions),
               sum_list (map pz positions) / real (length positions))"
    using assms by (simp add: calc_mean_def Let_def)
  have odd: "calc_median positions = Ok (?zs ! ?m)" if "odd (length positions)"
    using that by (simp add: calc_median_def Let_def odd_iff_mod_2_eq_one)
  have even: "calc_median positions =
      (let a = ?zs ! (?m - 1); b = ?zs ! ?m
       in Ok ((px a + px b) / 2, (py a + py b) / 2, (pz a + pz b) / 2))" if e: "even (length positions)"
  proof -
    from assms have "length positions \<noteq> 0" by simp
    with e have "2 \<le> length positions" by presburger
    then have m: "1 \<le> ?m" "?m < length ?zs" by simp_all
    from e have "length positions mod 2 \<noteq> 1" by presburger
    then have "calc_median positions = calc_mean [?zs ! (?m - 1), ?zs ! ?m]"
      using middle_pair[OF m] by (simp add: calc_median_def Let_def)
    then show ?thesis by (simp add: calc_mean_def Let_def)
  qed
  from mean odd even show ?thesis by (simp add: sorted_sort_key)
qed

text \<open>
  Four samples with \<open>z\<close> 1.00, 1.02, 1.01, 1.03: the mean has \<open>z = 1.015\<close>, and so has the
  median, the mean of 1.01 and 1.02. With the last sample left out the median is the
  sample with \<open>z = 1.01\<close>.
\<close>

theorem calc_mean_median_witness:
  "[(0, 0, 100 / 100), (0, 0, 102 / 100), (0, 0, 101 / 100), (0, 0, 103 / 100 :: real)] \<noteq> []
   \<and> calc_mean [(0, 0, 100 / 100), (0, 0, 102 / 100), (0, 0, 101 / 100), (0, 0, 103 / 100)] = Ok (0, 0, 1015 / 1000)
   \<and> calc_median [(0, 0, 100 / 100), (0, 0, 102 / 100), (0, 0, 101 / 100), (0, 0, 103 / 100)] = Ok (0, 0, 1015 / 1000)
   \<and> calc_median [(0, 0, 100 / 100), (0, 0, 102 / 100), (0, 0, 101 / 100)] = Ok (0, 0, 101 / 100)"
  using calc_mean_median [of "[(0, 0, 100 / 100), (0, 0, 102 / 100), (0, 0, 101 / 100), (0, 0, 103 / 100)]"]
    calc_mean_median [of "[(0, 0, 100 / 100), (0, 0, 102 / 100), (0, 0, 101 / 100)]"]
  by (simp add: px_def py_def pz_def Let_def)

section \<open>Sample acquisition: tolerance and retries\<close>

lemma tolerance_check_ok:
  "tolerance_check g st s = (Ok st', s') \<Longrightarrow> snd st' = [] \<or> (st' = st \<and> spread (snd st) \<le> samples_tolerance g)"
  by (auto simp: tolerance_check_def split: if_splits)

lemma mech_sample_ok:
  assumes "mech_sample g xy st s = (Ok st', s')"
  shows "snd st' = [] \<or> (spread (snd st') \<le> samples_tolerance g \<and> length (snd st') = length (snd st) + 1)"
  using assms unfolding mech_sample_def bindR_def
  by (auto split: prod.splits result.splits dest!: tolerance_check_ok)

lemma probe_iteration_ok:
  assumes "probe_iteration g xy st s = (Ok st', s')"
  shows "snd st' = [] \<or> (spread (snd st') \<le> samples_tolerance g \<and> length (snd st') = length (snd st) + 1)"
proof (cases "command g = ''BED_MESH_CALIBRATE'' \<or> command g = ''QUAD_GANTRY_LEVEL''")
  case False
  with assms show ?thesis by (auto simp: probe_iteration_def dest: mech_sample_ok)
next
  case True
  obtain r s1 where rd: "BD_Sensor_Read 0 s = (r, s1)" by (cases "BD_Sensor_Read 0 s")
  show ?thesis
  proof (cases r)
    case (Raise e)
    with assms True rd show ?thesis by (auto simp: probe_iteration_def dest: mech_sample_ok)
  next
    case Spin
    with assms True rd show ?thesis by (auto simp: probe_iteration_def)
  next
    case (Ok intd)
    define pos where "pos = (px (toolpos s1), py (toolpos s1), pz (toolpos s1) - intd)"
    define st1 where "st1 = (fst st, snd st @ [pos])"
    obtain r2 s3 where tc: "tolerance_check g st1 (respond (ProbeAt pos) s1) = (r2, s3)"
      by (cases "tolerance_check g st1 (respond (ProbeAt pos) s1)")
    show ?thesis
    proof (cases r2)
      case (Ok st2)
      with assms True rd \<open>r = Ok intd\<close> tc have "st2 = st'"
        by (auto simp: probe_iteration_def Let_def pos_def st1_def)
      with tc Ok have "tolerance_check g st1 (respond (ProbeAt pos) s1) = (Ok st', s3)" by simp
      from tolerance_check_ok[OF this] show ?thesis by (auto simp: st1_def)
    next
      case Spin
      with tc show ?thesis by (auto simp: tolerance_check_def split: if_splits)
    next
      case (Raise e)
      from tc Raise have "tolerance_check g st1 (respond (ProbeAt pos) s1) = (Raise e, s3)" by simp
      from tolerance_check_raise[OF this]
      have "spread (snd st1) > samples_tolerance g" "fst st1 \<ge> samples_retries g" by auto
      moreover have "snd st1 \<noteq> []" by (simp add: st1_def)
      ultimately have "fst (mech_sample g xy (fst st1, snd st1) (respond (ErrText e) s3)) \<noteq> Ok st'"
        by (rule mech_sample_after_raise)
      moreover from assms True rd \<open>r = Ok intd\<close> tc Raise
      have "mech_sample g xy st1 (respond (ErrText e) s3) = (Ok st', s')"
        by (auto simp: probe_iteration_def Let_def pos_def st1_def)
      ultimately show ?thesis by simp
    qed
  qed
qed

text \<open>
  The samples the loop hands to the aggregation: as many as asked for, and within the
  tolerance. The loop returns them, raises, or (of the three outcomes) never spins.
\<close>

lemma run_probe_loop_result:
  assumes "run_probe_loop g xy st s = (Ok positions, s')"
    and "snd st = [] \<or> spread (snd st) \<le> samples_tolerance g"
    and "int (length (snd st)) \<le> sample_count g" and "1 \<le> sample_count g"
  shows "int (length positions) = sample_count g \<and> spread positions \<le> samples_tolerance g"
  using assms
proof (induction g xy st s rule: run_probe_loop.induct)
  case (1 g xy st s)
  show ?case
  proof (cases "int (length (snd st)) < sample_count g")
    case False
    with "1.prems" have "positions = snd st" "int (length (snd st)) = sample_count g"
      by (simp_all add: run_probe_loop.simps)
    with "1.prems" show ?thesis by auto
  next
    case True
    obtain r s1 where it: "probe_iteration g xy st s = (r, s1)" by (cases "probe_iteration g xy st s")
    show ?thesis
    proof (cases r)
      case (Ok st1)
      with it True "1.prems"(1) have rec: "run_probe_loop g xy st1 s1 = (Ok positions, s')"
        by (simp add: run_probe_loop.simps)
      from it Ok have it': "probe_iteration g xy st s = (Ok st1, s1)" by simp
      from probe_iteration_ok[OF it'] True "1.prems"(4)
      have "snd st1 = [] \<or> spread (snd st1) \<le> samples_tolerance g" "int (length (snd st1)) \<le> sample_count g"
        by auto
      with "1.IH"[OF True it[symmetric] Ok rec] "1.prems"(4) show ?thesis by simp
    next
      case (Raise e)
      with it True "1.prems"(1) show ?thesis by (simp add: run_probe_loop.simps)
    next
      case Spin
      with it True "1.prems"(1) show ?thesis by (simp add: run_probe_loop.simps)
    qed
  qed
qed

lemma run_probe_within_tolerance:
  assumes "fst (run_probe g s) = Ok p" and "1 \<le> sample_count g"
  shows "\<exists>positions. int (length positions) = sample_count g
           \<and> spread positions \<le> samples_tolerance g
           \<and> Ok p = (if samples_result g = ''median'' then calc_median positions else calc_mean positions)"
proof -
  define s1 where "s1 = (if \<not> multi_probe_pending s then multi_probe_begin s else s)"
  define xy where "xy = (px (toolpos s1), py (toolpos s1))"
  obtain r s2 where lp: "run_probe_loop g xy (0, []) s1 = (r, s2)"
    by (cases "run_probe_loop g xy (0, []) s1")
  from assms(1) obtain positions where r: "r = Ok positions"
    by (cases r) (auto simp: run_probe_def Let_def s1_def[symmetric] xy_def[symmetric] lp bindR_def)
  from lp r have "run_probe_loop g xy (0, []) s1 = (Ok positions, s2)" by simp
  from run_probe_loop_result[OF this] assms(2)
  have a: "int (length positions) = sample_count g" "spread positions \<le> samples_tolerance g" by auto
  from assms(1) r have "Ok p = (if samples_result g = ''median'' then calc_median positions else calc_mean positions)"
    by (auto simp: run_probe_def Let_def s1_def[symmetric] xy_def[symmetric] lp bindR_def
          split: prod.splits result.splits if_splits)
  with a show ?thesis by blast
qed

lemma tolerance_check_exceeded:
  assumes "spread (snd st) > samples_tolerance g"
  shows "tolerance_check g st s =
           (if fst st \<ge> samples_retries g then (Raise SamplesExceedTolerance, s)
            else (Ok (fst st + 1, []), respond (Text ''Probe samples exceed tolerance. Retrying...'') s))"
  using assms by (simp add: tolerance_check_def)

lemmas run_probe_defs =
  run_probe_def run_probe_loop.simps probe_iteration_def mech_sample_def tolerance_check_def
  spread_def PrinterProbe_probe_def manual_move_def px_def py_def pz_def

text \<open>
  C1 at an input where the code departs from it. \<^verbatim>\<open>BED_MESH_CALIBRATE\<close> asks for two
  samples within 0.1 mm and no retry; the toolhead stands at \<open>z = 5\<close> and the sensor reads
  1.00 and then 2.00, so the samples are \<open>z = 4\<close> and \<open>z = 3\<close> and their spread is 1. The
  tolerance error is raised inside \<^verbatim>\<open>try\<close>, caught and printed, and a mechanical probe
  is made: when that probe times out, \<^verbatim>\<open>run_probe\<close> fails with the timeout and not with the
  tolerance error; when it returns, the tolerance error is raised only after it. With the
  same samples from the mechanical probe under \<^verbatim>\<open>PROBE\<close>, the error is raised at once.
\<close>

theorem run_probe_tolerance_error_caught:
  "fst (run_probe
         \<lparr>command = ''BED_MESH_CALIBRATE'', sample_count = 2, sample_retract_dist = 2,
          samples_tolerance = 1 / 10, samples_retries = 0, samples_result = ''average'',
          probe_method = ''automatic'', horizontal_move_z_arg = None\<rparr>
         ((load_config 1 True (feed 0 [100, 200]))
            \<lparr>toolpos := (0, 0, 5), mech := (\<lambda>k. Inl (ProbingMoveError ''Timeout during endstop homing''))\<rparr>))
     = Raise (ProbingMoveError ''Timeout during endstop homing'')
   \<and> console (snd (run_probe
         \<lparr>command = ''BED_MESH_CALIBRATE'', sample_count = 2, sample_retract_dist = 2,
          samples_tolerance = 1 / 10, samples_retries = 0, samples_result = ''average'',
          probe_method = ''automatic'', horizontal_move_z_arg = None\<rparr>
         ((load_config 1 True (feed 0 [100, 200]))
            \<lparr>toolpos := (0, 0, 5), mech := (\<lambda>k. Inl (ProbingMoveError ''Timeout during endstop homing''))\<rparr>)))
     = [ProbeAt (0, 0, 4), ProbeAt (0, 0, 3), ErrText SamplesExceedTolerance]
   \<and> fst (run_probe
         \<lparr>command = ''BED_MESH_CALIBRATE'', sample_count = 2, sample_retract_dist = 2,
          samples_tolerance = 1 / 10, samples_retries = 0, samples_result = ''average'',
          probe_method = ''automatic'', horizontal_move_z_arg = None\<rparr>
         ((load_config 1 True (feed 0 [100, 200]))
            \<lparr>toolpos := (0, 0, 5), mech := (\<lambda>k. Inr (0, 0, 7 / 2))\<rparr>))
     = Raise SamplesExceedTolerance
   \<and> nmech (snd (run_probe
         \<lparr>command = ''BED_MESH_CALIBRATE'', sample_count = 2, sample_retract_dist = 2,
          samples_tolerance = 1 / 10, samples_retries = 0, samples_result = ''average'',
          probe_method = ''automatic'', horizontal_move_z_arg = None\<rparr>
         ((load_config 1 True (feed 0 [100, 200]))
            \<lparr>toolpos := (0, 0, 5), mech := (\<lambda>k. Inr (0, 0, 7 / 2))\<rparr>)))
     = 1
   \<and> run_probe
         \<lparr>command = ''PROBE'', sample_count = 2, sample_retract_dist = 2,
          samples_tolerance = 1 / 10, samples_retries = 0, samples_result = ''average'',
          probe_method = ''automatic'', horizontal_move_z_arg = None\<rparr>
         ((load_config 1 True (feed 0 []))
            \<lparr>toolpos := (0, 0, 5), mech := feed (Inl MustHomeBeforeProbe) [Inr (0, 0, 4), Inr (0, 0, 3)]\<rparr>)
     = (Raise SamplesExceedTolerance,
        (load_config 1 True (feed 0 []))
            \<lparr>toolpos := (0, 0, 3), mech := feed (Inl MustHomeBeforeProbe) [Inr (0, 0, 4), Inr (0, 0, 3)],
              nmech := 2, console := [ProbeAt (0, 0, 4), ProbeAt (0, 0, 3)], multi_probe_pending := True\<rparr>)"
  by (simp add: run_probe_defs session_defs load_config_def feed_def)

section \<open>Continuous scan of one line\<close>

lemma BD_Sensor_Read_env:
  "obs (snd (BD_Sensor_Read f s)) = obs s"
  "est_of (snd (BD_Sensor_Read f s)) = est_of s"
  "tick (snd (BD_Sensor_Read f s)) = tick s"
  "results (snd (BD_Sensor_Read f s)) = results s"
  "nmech (snd (BD_Sensor_Read f s)) = nmech s"
  "reply (snd (BD_Sensor_Read f s)) = reply s"
  "toolpos (snd (BD_Sensor_Read f s)) = toolpos s"
  by (simp_all add: BD_Sensor_Read_def BD_acquire_def sensor_fault_def I2C_BD_receive_def
        I2C_BD_send_def respond_def Let_def)

text \<open>A read in mode 0, in the terms of the sequence of readings.\<close>

lemma BD_Sensor_Read_reading:
  "fst (BD_Sensor_Read 0 s) =
     (if reading (reply s) (nrecv s) \<ge> 10.24 then Raise (SensorDataError (reading (reply s) (nrecv s)))
      else if reading (reply s) (nrecv s) > 3.8 then Raise (SensorOutOfRange (reading (reply s) (nrecv s)))
      else Ok (reading (reply s) (nrecv s)))"
  "nrecv (snd (BD_Sensor_Read 0 s)) = nrecv s + queries (reply s) (nrecv s)"
  unfolding BD_Sensor_Read_state
  by (simp_all add: BD_Sensor_Read_result BD_acquire_fields respond_fields reading_def queries_def
        Let_def split: result.split)

text \<open>What one poll of the loop comes to.\<close>

lemma scan_loop_poll:
  assumes "scan_loop (Suc fuel) pts T t0 (est, k) s = (r, s')"
  shows "(\<exists>e. fault (obs s (tick s)) = Some e \<and> r = Raise e \<and> s' = s)
       \<or> (fault (obs s (tick s)) = None \<and> \<not> scan_goes_on est (obs s (tick s)) \<and> r = Ok () \<and> s' = s)
       \<or> (scan_goes_on est (obs s (tick s))
            \<and> due_time T (length pts) k \<le> elapsed_at s t0 (tick s)
            \<and> length pts \<le> k \<and> r = Raise IndexError \<and> s' = s)
       \<or> (scan_goes_on est (obs s (tick s))
            \<and> due_time T (length pts) k \<le> elapsed_at s t0 (tick s)
            \<and> k < length pts \<and> reading (reply s) (nrecv s) > 3.8
            \<and> r = Raise (if reading (reply s) (nrecv s) \<ge> 10.24
                         then SensorDataError (reading (reply s) (nrecv s))
                         else SensorOutOfRange (reading (reply s) (nrecv s)))
            \<and> tick s' = tick s \<and> results s' = results s \<and> obs s' = obs s \<and> est_of s' = est_of s
            \<and> reply s' = reply s \<and> toolpos s' = toolpos s \<and> nmech s' = nmech s)
       \<or> (\<exists>s1. scan_goes_on est (obs s (tick s))
            \<and> due_time T (length pts) k \<le> elapsed_at s t0 (tick s)
            \<and> k < length pts \<and> reading (reply s) (nrecv s) \<le> 3.8
            \<and> obs s1 = obs s \<and> est_of s1 = est_of s \<and> tick s1 = Suc (tick s)
            \<and> reply s1 = reply s \<and> nrecv s1 = nrecv s + queries (reply s) (nrecv s)
            \<and> toolpos s1 = toolpos s \<and> nmech s1 = nmech s
            \<and> results s1 = results s @ [(point_x (pts ! k), point_y (pts ! k),
                                          pz (toolpos s) - reading (reply s) (nrecv s))]
            \<and> scan_loop fuel pts T t0 (est_of s (now (obs s (tick s))), Suc k) s1 = (r, s'))
       \<or> (scan_goes_on est (obs s (tick s))
            \<and> elapsed_at s t0 (tick s) < due_time T (length pts) k
            \<and> scan_loop fuel pts T t0 (est_of s (now (obs s (tick s))), k) (pause s) = (r, s'))"
proof -
  obtain rr s1 where rd: "BD_Sensor_Read 0 s = (rr, s1)" by (cases "BD_Sensor_Read 0 s")
  have env: "obs s1 = obs s" "est_of s1 = est_of s" "tick s1 = tick s" "results s1 = results s"
    "nmech s1 = nmech s" "reply s1 = reply s" "toolpos s1 = toolpos s"
    "nrecv s1 = nrecv s + queries (reply s) (nrecv s)"
    using BD_Sensor_Read_env[of 0 s] BD_Sensor_Read_reading(2)[of s] rd by simp_all
  have rr: "rr = (if reading (reply s) (nrecv s) \<ge> 10.24 then Raise (SensorDataError (reading (reply s) (nrecv s)))
      else if reading (reply s) (nrecv s) > 3.8 then Raise (SensorOutOfRange (reading (reply s) (nrecv s)))
      else Ok (reading (reply s) (nrecv s)))"
    using BD_Sensor_Read_reading(1)[of s] rd by simp
  show ?thesis
  proof (cases rr)
    case (Ok intd)
    from Ok rr have v: "intd = reading (reply s) (nrecv s)" "reading (reply s) (nrecv s) \<le> 3.8"
      by (auto split: if_splits)
    define pos where "pos = (point_x (pts ! k), point_y (pts ! k), pz (toolpos s1) - intd)"
    define s3 where "s3 = pause ((respond (ProbeAt pos) s1)\<lparr>results := results (respond (ProbeAt pos) s1) @ [pos]\<rparr>)"
    have s3: "obs s3 = obs s" "est_of s3 = est_of s" "tick s3 = Suc (tick s)"
      "results s3 = results s @ [(point_x (pts ! k), point_y (pts ! k), pz (toolpos s) - reading (reply s) (nrecv s))]"
      "nmech s3 = nmech s" "reply s3 = reply s" "toolpos s3 = toolpos s"
      "nrecv s3 = nrecv s + queries (reply s) (nrecv s)"
      by (simp_all add: s3_def pause_def respond_def env pos_def v)
    from assms show ?thesis
      unfolding scan_loop.simps Let_def rd Ok
      apply (simp split: option.splits if_splits add: pos_def[symmetric] s3_def[symmetric]
          scan_goes_on_def due_time_def elapsed_at_def)
      using s3 v(2) by (auto simp: not_le)
  next
    case (Raise e)
    from Raise rr have v: "reading (reply s) (nrecv s) > 3.8"
      "e = (if reading (reply s) (nrecv s) \<ge> 10.24
                         then SensorDataError (reading (reply s) (nrecv s))
                         else SensorOutOfRange (reading (reply s) (nrecv s)))"
      by (auto split: if_splits)
    from assms env v(1) show ?thesis
      unfolding scan_loop.simps Let_def rd Raise v(2)[symmetric]
      by (auto split: option.splits if_splits simp: not_le scan_goes_on_def due_time_def elapsed_at_def)
  next
    case Spin
    with rr show ?thesis by (auto split: if_splits)
  qed
qed

lemma on_schedule_earlier:
  assumes "E a < thr k" and "on_schedule E thr (Suc a) k ts stop"
  shows "on_schedule E thr a k ts stop"
proof -
  have key: "\<forall>i\<in>{a..<x}. E i < thr k" if "\<forall>i\<in>{Suc a..<x}. E i < thr k" for x
  proof
    fix i assume i: "i \<in> {a..<x}"
    show "E i < thr k"
    proof (cases "i = a")
      case True
      with assms(1) show ?thesis by simp
    next
      case False
      with i have "i \<in> {Suc a..<x}" by auto
      with that show ?thesis by blast
    qed
  qed
  show ?thesis
  proof (cases ts)
    case Nil
    with assms(2) key[of stop] show ?thesis by simp
  next
    case (Cons t ts')
    with assms(2) key[of t] show ?thesis by simp
  qed
qed

lemma est_before_later:
  assumes "obs s1 = obs s" "est_of s1 = est_of s" "tick s < i"
  shows "est_before s1 (Suc (tick s)) (est_of s (now (obs s (tick s)))) i = est_before s (tick s) est i"
  using assms by (simp add: est_before_def)

lemma elapsed_at_same:
  assumes "obs s1 = obs s" "est_of s1 = est_of s"
  shows "elapsed_at s1 t0 = elapsed_at s t0"
  using assms by (simp add: elapsed_at_def fun_eq_iff)

lemma scan_end_later:
  assumes "scan_end s1 pts T t0 (Suc (tick s)) (est_of s (now (obs s (tick s)))) limit col nr stop r"
    and "obs s1 = obs s" and "est_of s1 = est_of s" and "reply s1 = reply s" and "tick s < stop"
  shows "scan_end s pts T t0 (tick s) est limit col nr stop r"
proof -
  have e: "est_before s1 (Suc (tick s)) (est_of s (now (obs s (tick s)))) stop = est_before s (tick s) est stop"
    by (rule est_before_later[OF assms(2,3,5)])
  from assms(1) show ?thesis
    unfolding scan_end_def e elapsed_at_same[OF assms(2,3)] assms(2,4) .
qed

lemma scan_goes_on_later:
  assumes "\<forall>i\<in>{Suc (tick s)..<stop}. scan_goes_on (est_before s1 (Suc (tick s)) (est_of s (now (obs s (tick s)))) i) (obs s1 i)"
    and "obs s1 = obs s" "est_of s1 = est_of s"
    and "scan_goes_on est (obs s (tick s))"
  shows "\<forall>i\<in>{tick s..<stop}. scan_goes_on (est_before s (tick s) est i) (obs s i)"
proof
  fix i assume i: "i \<in> {tick s..<stop}"
  show "scan_goes_on (est_before s (tick s) est i) (obs s i)"
  proof (cases "i = tick s")
    case True
    with assms(4) show ?thesis by (simp add: est_before_def)
  next
    case False
    with i have l: "tick s < i" and m: "i \<in> {Suc (tick s)..<stop}" by auto
    from assms(1) m
    have "scan_goes_on (est_before s1 (Suc (tick s)) (est_of s (now (obs s (tick s)))) i) (obs s1 i)"
      by blast
    then show ?thesis
      unfolding est_before_later[OF assms(2,3) l, of est] assms(2) .
  qed
qed

text \<open>
  The loop from any column on: the polls at which it samples, what it records, and how it
  ends.
\<close>

lemma scan_loop_exact:
  assumes "scan_loop fuel pts T t0 (est, k) s = (r, s')"
  shows "\<exists>ts. on_schedule (elapsed_at s t0) (due_time T (length pts)) (tick s) k ts (tick s')
           \<and> (\<forall>i\<in>{tick s..<tick s'}. scan_goes_on (est_before s (tick s) est i) (obs s i))
           \<and> results s' = results s
                @ map2 (\<lambda>p v. (point_x p, point_y p, pz (toolpos s) - v))
                    (take (length ts) (drop k pts)) (readings (reply s) (nrecv s) (length ts))
           \<and> (\<forall>v\<in>set (readings (reply s) (nrecv s) (length ts)). v \<le> 3.8)
           \<and> k + length ts \<le> max k (length pts)
           \<and> tick s \<le> tick s' \<and> tick s' \<le> tick s + fuel
           \<and> scan_end s pts T t0 (tick s) est (tick s + fuel) (k + length ts)
                (after_reads (reply s) (nrecv s) (length ts)) (tick s') r
           \<and> obs s' = obs s \<and> est_of s' = est_of s \<and> reply s' = reply s
           \<and> toolpos s' = toolpos s \<and> nmech s' = nmech s"
  using assms
proof (induction fuel arbitrary: est k s)
  case 0
  then have "s' = s" "r = Spin" by (simp_all add: scan_loop.simps)
  then show ?case by (intro exI[of _ "[]"]) (simp add: scan_end_def)
next
  case (Suc fuel)
  let ?E = "elapsed_at s t0"
  let ?due = "due_time T (length pts)"
  let ?v = "reading (reply s) (nrecv s)"
  let ?est = "est_of s (now (obs s (tick s)))"
  from scan_loop_poll[OF Suc.prems]
  consider (fault) e where "fault (obs s (tick s)) = Some e" "r = Raise e" "s' = s"
    | (over) "fault (obs s (tick s)) = None" "\<not> scan_goes_on est (obs s (tick s))" "r = Ok ()" "s' = s"
    | (index) "scan_goes_on est (obs s (tick s))" "?due k \<le> ?E (tick s)" "length pts \<le> k"
        "r = Raise IndexError" "s' = s"
    | (sensor) "scan_goes_on est (obs s (tick s))" "?due k \<le> ?E (tick s)" "k < length pts" "?v > 3.8"
        "r = Raise (if ?v \<ge> 10.24 then SensorDataError ?v else SensorOutOfRange ?v)"
        "tick s' = tick s" "results s' = results s" "obs s' = obs s" "est_of s' = est_of s"
        "reply s' = reply s" "toolpos s' = toolpos s" "nmech s' = nmech s"
    | (sample) s1 where "scan_goes_on est (obs s (tick s))" "?due k \<le> ?E (tick s)" "k < length pts"
        "?v \<le> 3.8" "obs s1 = obs s" "est_of s1 = est_of s" "tick s1 = Suc (tick s)"
        "reply s1 = reply s" "nrecv s1 = nrecv s + queries (reply s) (nrecv s)"
        "toolpos s1 = toolpos s" "nmech s1 = nmech s"
        "results s1 = results s @ [(point_x (pts ! k), point_y (pts ! k), pz (toolpos s) - ?v)]"
        "scan_loop fuel pts T t0 (?est, Suc k) s1 = (r, s')"
    | (wait) "scan_goes_on est (obs s (tick s))" "?E (tick s) < ?due k"
        "scan_loop fuel pts T t0 (?est, k) (pause s) = (r, s')"
    by (elim disjE exE conjE) blast+
  then show ?case
  proof cases
    case fault
    then show ?thesis by (intro exI[of _ "[]"]) (simp add: scan_end_def)
  next
    case over
    then show ?thesis by (intro exI[of _ "[]"]) (simp add: scan_end_def est_before_def)
  next
    case index
    then show ?thesis by (intro exI[of _ "[]"]) (simp add: scan_end_def est_before_def)
  next
    case sensor
    then show ?thesis by (intro exI[of _ "[]"]) (simp add: scan_end_def est_before_def)
  next
    case sample
    from Suc.IH[OF sample(13)] obtain ts where ts:
      "on_schedule (elapsed_at s1 t0) ?due (tick s1) (Suc k) ts (tick s')"
      "\<forall>i\<in>{tick s1..<tick s'}. scan_goes_on (est_before s1 (tick s1) ?est i) (obs s1 i)"
      "results s' = results s1
          @ map2 (\<lambda>p v. (point_x p, point_y p, pz (toolpos s1) - v))
              (take (length ts) (drop (Suc k) pts)) (readings (reply s1) (nrecv s1) (length ts))"
      "\<forall>v\<in>set (readings (reply s1) (nrecv s1) (length ts)). v \<le> 3.8"
      "Suc k + length ts \<le> max (Suc k) (length pts)"
      "tick s1 \<le> tick s'" "tick s' \<le> tick s1 + fuel"
      "scan_end s1 pts T t0 (tick s1) ?est (tick s1 + fuel) (Suc k + length ts)
          (after_reads (reply s1) (nrecv s1) (length ts)) (tick s') r"
      "obs s' = obs s1" "est_of s' = est_of s1" "reply s' = reply s1"
      "toolpos s' = toolpos s1" "nmech s' = nmech s1"
      by blast
    have d: "drop k pts = pts ! k # drop (Suc k) pts"
      using sample(3) by (simp add: Cons_nth_drop_Suc)
    have lt: "tick s < tick s'" using ts(6) sample(7) by simp
    have c1: "on_schedule ?E ?due (tick s) k (tick s # ts) (tick s')"
      using ts(1) lt sample(2) by (simp add: sample(7) elapsed_at_same[OF sample(5,6)])
    have c2: "\<forall>i\<in>{tick s..<tick s'}. scan_goes_on (est_before s (tick s) est i) (obs s i)"
      using scan_goes_on_later[OF _ sample(5,6,1)] ts(2) by (simp add: sample(7))
    have c3: "results s' = results s
        @ map2 (\<lambda>p v. (point_x p, point_y p, pz (toolpos s) - v))
            (take (length (tick s # ts)) (drop k pts)) (readings (reply s) (nrecv s) (length (tick s # ts)))"
      using ts(3) by (simp add: sample(8,9,10,12) d)
    have c4: "\<forall>v\<in>set (readings (reply s) (nrecv s) (length (tick s # ts))). v \<le> 3.8"
      using ts(4) sample(4) by (simp add: sample(8,9))
    have c5: "k + length (tick s # ts) \<le> max k (length pts)"
      using ts(5) sample(3) by simp
    have c6: "tick s \<le> tick s'" "tick s' \<le> tick s + Suc fuel"
      using ts(6,7) sample(7) by simp_all
    have c7: "scan_end s pts T t0 (tick s) est (tick s + Suc fuel) (k + length (tick s # ts))
        (after_reads (reply s) (nrecv s) (length (tick s # ts))) (tick s') r"
      using scan_end_later[OF _ sample(5,6,8) lt, of pts T t0 "tick s + Suc fuel" "Suc k + length ts"
          "after_reads (reply s1) (nrecv s1) (length ts)" r est] ts(8)
      by (simp add: sample(7,8,9))
    have c8: "obs s' = obs s" "est_of s' = est_of s" "reply s' = reply s"
      "toolpos s' = toolpos s" "nmech s' = nmech s"
      using ts(9-13) sample(5,6,8,10,11) by simp_all
    from c1 c2 c3 c4 c5 c6 c7 c8 show ?thesis by (intro exI[of _ "tick s # ts"]) blast
  next
    case wait
    have p: "obs (pause s) = obs s" "est_of (pause s) = est_of s" "tick (pause s) = Suc (tick s)"
      "results (pause s) = results s" "reply (pause s) = reply s" "nrecv (pause s) = nrecv s"
      "toolpos (pause s) = toolpos s" "nmech (pause s) = nmech s"
      by (simp_all add: pause_def)
    from Suc.IH[OF wait(3)] obtain ts where ts:
      "on_schedule (elapsed_at (pause s) t0) ?due (tick (pause s)) k ts (tick s')"
      "\<forall>i\<in>{tick (pause s)..<tick s'}. scan_goes_on (est_before (pause s) (tick (pause s)) ?est i) (obs (pause s) i)"
      "results s' = results (pause s)
          @ map2 (\<lambda>p v. (point_x p, point_y p, pz (toolpos (pause s)) - v))
              (take (length ts) (drop k pts)) (readings (reply (pause s)) (nrecv (pause s)) (length ts))"
      "\<forall>v\<in>set (readings (reply (pause s)) (nrecv (pause s)) (length ts)). v \<le> 3.8"
      "k + length ts \<le> max k (length pts)"
      "tick (pause s) \<le> tick s'" "tick s' \<le> tick (pause s) + fuel"
      "scan_end (pause s) pts T t0 (tick (pause s)) ?est (tick (pause s) + fuel) (k + length ts)
          (after_reads (reply (pause s)) (nrecv (pause s)) (length ts)) (tick s') r"
      "obs s' = obs (pause s)" "est_of s' = est_of (pause s)" "reply s' = reply (pause s)"
      "toolpos s' = toolpos (pause s)" "nmech s' = nmech (pause s)"
      by blast
    have lt: "tick s < tick s'" using ts(6) p(3) by simp
    have c1: "on_schedule ?E ?due (tick s) k ts (tick s')"
      using on_schedule_earlier[of ?E "tick s" ?due k ts "tick s'", OF wait(2)] ts(1)
      by (simp add: p(3) elapsed_at_same[OF p(1,2)])
    have c2: "\<forall>i\<in>{tick s..<tick s'}. scan_goes_on (est_before s (tick s) est i) (obs s i)"
      using scan_goes_on_later[OF _ p(1,2) wait(1)] ts(2) by (simp add: p(3))
    have c3: "results s' = results s
        @ map2 (\<lambda>p v. (point_x p, point_y p, pz (toolpos s) - v))
            (take (length ts) (drop k pts)) (readings (reply s) (nrecv s) (length ts))"
      using ts(3) by (simp add: p)
    have c4: "\<forall>v\<in>set (readings (reply s) (nrecv s) (length ts)). v \<le> 3.8"
      using ts(4) by (simp add: p)
    have c6: "tick s \<le> tick s'" "tick s' \<le> tick s + Suc fuel"
      using ts(6,7) p(3) by simp_all
    have c7: "scan_end s pts T t0 (tick s) est (tick s + Suc fuel) (k + length ts)
        (after_reads (reply s) (nrecv s) (length ts)) (tick s') r"
      using scan_end_later[OF _ p(1,2,5) lt, of pts T t0 "tick s + Suc fuel" "k + length ts"
          "after_reads (reply s) (nrecv s) (length ts)" r est] ts(8)
      by (simp add: p)
    have c8: "obs s' = obs s" "est_of s' = est_of s" "reply s' = reply s"
      "toolpos s' = toolpos s" "nmech s' = nmech s"
      using ts(9-13) p by simp_all
    from c1 c2 c3 c4 ts(5) c6 c7 c8 show ?thesis by (intro exI[of _ ts]) blast
  qed
qed

text \<open>
  \<^verbatim>\<open>fast_probe_oneline\<close> on a line of two points or more: the two moves change the
  commanded \<open>x\<close> and \<open>y\<close> only, and the loop is entered at the start point's column with the
  estimate of the first look at the clock.
\<close>

lemma fast_probe_oneline_scan:
  assumes "length (results s) < length (probe_points s)"
    and "pts = filter (same_y_object (probe_points s ! length (results s))) (probe_points s)"
    and "2 \<le> length pts"
    and "t0 = est_of s (now (obs s (tick s)))"
    and "T = print_time (obs s (tick s)) - t0"
  shows "\<exists>s2. obs s2 = obs s \<and> est_of s2 = est_of s \<and> tick s2 = tick s \<and> results s2 = results s
           \<and> reply s2 = reply s \<and> nrecv s2 = nrecv s \<and> pz (toolpos s2) = pz (toolpos s)
           \<and> nmech s2 = nmech s
           \<and> fast_probe_oneline fuel s =
               (case fault (obs s (tick s)) of
                  Some e \<Rightarrow> (Raise e, s2)
                | None \<Rightarrow> scan_loop fuel pts T t0 (t0, 0) s2)"
proof -
  define shift where "shift = (\<lambda>p. if use_offsets s
                                then (point_x p - px (probe_offsets s), point_y p - py (probe_offsets s))
                                else (point_x p, point_y p))"
  define s2 where "s2 =
    manual_move (Some (fst (shift (pts ! (length pts - 1)))), Some (snd (shift (pts ! (length pts - 1)))), None)
      (manual_move (Some (fst (shift (probe_points s ! length (results s)))),
                    Some (snd (shift (probe_points s ! length (results s)))), None) s)"
  have f: "obs s2 = obs s" "est_of s2 = est_of s" "tick s2 = tick s" "results s2 = results s"
    "reply s2 = reply s" "nrecv s2 = nrecv s" "pz (toolpos s2) = pz (toolpos s)" "nmech s2 = nmech s"
    by (simp_all add: s2_def manual_move_def pz_def)
  have n: "\<not> length pts \<le> 1" using assms(3) by simp
  have "fast_probe_oneline fuel s =
               (case fault (obs s (tick s)) of
                  Some e \<Rightarrow> (Raise e, s2)
                | None \<Rightarrow> scan_loop fuel pts T t0 (t0, 0) s2)"
    using assms(1) n
    unfolding fast_probe_oneline_def Let_def assms(2)[symmetric] shift_def[symmetric] s2_def[symmetric] f
      assms(4)[symmetric] assms(5)[symmetric]
    by (simp split: option.split)
  with f show ?thesis by blast
qed

text \<open>
  Two points whose \<open>y\<close> are equal and held in separate objects are not one line: the scan
  finds a line of one point and raises the configuration error.
\<close>

lemma fast_probe_oneline_separate_y_objects:
  "fast_probe_oneline 8 ((load_config 1 True (feed 150 []))\<lparr>probe_points := [(0, 7, 0), (10, 8, 0)]\<rparr>)
     = (Raise (MeshDirectionNotX 1),
        (load_config 1 True (feed 150 []))\<lparr>probe_points := [(0, 7, 0), (10, 8, 0)]\<rparr>)"
  by (simp add: fast_probe_oneline_def same_y_object_def load_config_def Let_def)

text \<open>
  C6 as the code has it. Let a line of \<open>n \<ge> 2\<close> points be scanned, \<open>t0\<close> the estimated
  print time when the loop is entered and \<open>T\<close> the print time at the end of the move less
  \<open>t0\<close>. There are polls \<open>ts\<close>, increasing, such that:

  \<^item> the columns \<open>0, 1, ...\<close> are sampled at the polls \<open>ts\<close>, in their order and one at a
    poll: column \<open>k\<close> at the first poll, after the poll of column \<open>k - 1\<close>, at which the
    estimated elapsed time is at least \<open>k * T / (n - 1)\<close>;
  \<^item> at every poll before the last the loop went on: nothing was raised, the move was not
    over and pausing was allowed;
  \<^item> what is recorded is, for each sampled column, the \<open>x\<close> and \<open>y\<close> of its point and the
    commanded \<open>z\<close> less the distance the sensor gave at that poll, a distance of at most 3.8,
    the readings being the successive readings of the sensor; nothing else is recorded, so
    at most \<open>n\<close> columns have a reading, one each, and the others none;
  \<^item> the loop ends normally only at a poll at which the move is over or pausing is not
    allowed; it ends with an exception at a poll at which the toolhead raises it, or at
    which a column is due that is not one of the line (\<^verbatim>\<open>IndexError\<close>) or for which the
    sensor gives more than 3.8 (the sensor's error); the polls that were allowed are used up
    only if the loop went on at each of them.
\<close>

theorem scan_line_schedule:
  assumes "length (results s) < length (probe_points s)"
    and "pts = filter (same_y_object (probe_points s ! length (results s))) (probe_points s)"
    and "2 \<le> length pts"
    and "t0 = est_of s (now (obs s (tick s)))"
    and "T = print_time (obs s (tick s)) - t0"
    and "fast_probe_oneline fuel s = (r, s')"
  shows "\<exists>ts. on_schedule (elapsed_at s t0) (due_time T (length pts)) (tick s) 0 ts (tick s')
           \<and> (\<forall>i\<in>{tick s..<tick s'}. scan_goes_on (est_before s (tick s) t0 i) (obs s i))
           \<and> results s' = results s
                @ map2 (\<lambda>p v. (point_x p, point_y p, pz (toolpos s) - v))
                    (take (length ts) pts) (readings (reply s) (nrecv s) (length ts))
           \<and> (\<forall>v\<in>set (readings (reply s) (nrecv s) (length ts)). v \<le> 3.8)
           \<and> length ts \<le> length pts
           \<and> tick s' \<le> tick s + fuel
           \<and> (case r of
                Spin \<Rightarrow> tick s' = tick s + fuel
              | Ok u \<Rightarrow> fault (obs s (tick s')) = None
                         \<and> \<not> scan_goes_on (est_before s (tick s) t0 (tick s')) (obs s (tick s'))
              | Raise e \<Rightarrow>
                  fault (obs s (tick s')) = Some e
                  \<or> (scan_goes_on (est_before s (tick s) t0 (tick s')) (obs s (tick s'))
                     \<and> due_time T (length pts) (length ts) \<le> elapsed_at s t0 (tick s')
                     \<and> (if length pts \<le> length ts then e = IndexError
                        else reading (reply s) (after_reads (reply s) (nrecv s) (length ts)) > 3.8
                             \<and> e = (if reading (reply s) (after_reads (reply s) (nrecv s) (length ts)) \<ge> 10.24
                                    then SensorDataError (reading (reply s) (after_reads (reply s) (nrecv s) (length ts)))
                                    else SensorOutOfRange (reading (reply s) (after_reads (reply s) (nrecv s) (length ts)))))))"
proof -
  from fast_probe_oneline_scan[OF assms(1-5), of fuel] assms(6) obtain s2 where s2:
    "obs s2 = obs s" "est_of s2 = est_of s" "tick s2 = tick s" "results s2 = results s"
    "reply s2 = reply s" "nrecv s2 = nrecv s" "pz (toolpos s2) = pz (toolpos s)"
    and run: "(r, s') = (case fault (obs s (tick s)) of
                  Some e \<Rightarrow> (Raise e, s2)
                | None \<Rightarrow> scan_loop fuel pts T t0 (t0, 0) s2)"
    by auto
  have E: "elapsed_at s2 t0 = elapsed_at s t0" by (rule elapsed_at_same[OF s2(1,2)])
  have B: "est_before s2 (tick s) t0 = est_before s (tick s) t0"
    by (simp add: est_before_def fun_eq_iff s2(1,2))
  show ?thesis
  proof (cases "fault (obs s (tick s))")
    case (Some e)
    with run have "r = Raise e" "s' = s2" by simp_all
    with Some s2 show ?thesis by (intro exI[of _ "[]"]) simp
  next
    case None
    with run have "scan_loop fuel pts T t0 (t0, 0) s2 = (r, s')" by simp
    from scan_loop_exact[OF this] obtain ts where ts:
      "on_schedule (elapsed_at s2 t0) (due_time T (length pts)) (tick s2) 0 ts (tick s')"
      "\<forall>i\<in>{tick s2..<tick s'}. scan_goes_on (est_before s2 (tick s2) t0 i) (obs s2 i)"
      "results s' = results s2
          @ map2 (\<lambda>p v. (point_x p, point_y p, pz (toolpos s2) - v))
              (take (length ts) (drop 0 pts)) (readings (reply s2) (nrecv s2) (length ts))"
      "\<forall>v\<in>set (readings (reply s2) (nrecv s2) (length ts)). v \<le> 3.8"
      "0 + length ts \<le> max 0 (length pts)"
      "tick s' \<le> tick s2 + fuel"
      "scan_end s2 pts T t0 (tick s2) t0 (tick s2 + fuel) (0 + length ts)
          (after_reads (reply s2) (nrecv s2) (length ts)) (tick s') r"
      by blast
    from ts show ?thesis
      unfolding s2 E B scan_end_def add_0 drop_0 max_0L
      by (intro exI[of _ ts]) blast
  qed
qed

lemmas scan_defs =
  fast_probe_oneline_def manual_move_def point_x_def point_y_def same_y_object_def
  scan_loop.simps BD_Sensor_Read_def BD_acquire_def sensor_fault_def I2C_BD_send_def
  I2C_BD_receive_def respond_def pause_def watch_def feed_def load_config_def px_def py_def pz_def
  Let_def eval_nat_numeral

text \<open>
  A line of five points whose move spans 2 s, polled at 0, 0.5, 1, 1.5, 2 and 2.1 s, the
  sensor answering 100, 1030 and on the re-query 110, 120, 130, 140: the loop ends normally
  at the seventh poll with one reading for each of the five columns, in their order.
\<close>

theorem scan_line_schedule_witness:
  "length (results (five_point_line (feed 150 [100, 1030, 110, 120, 130, 140])
                      (watch 2 [0, 1 / 2, 1, 3 / 2, 2, 21 / 10])))
     < length (probe_points (five_point_line (feed 150 [100, 1030, 110, 120, 130, 140])
                      (watch 2 [0, 1 / 2, 1, 3 / 2, 2, 21 / 10])))
   \<and> (2::nat) \<le> length [(0, 7, 0), (10, 7, 0), (20, 7, 0), (30, 7, 0), (40::real, 7::nat, 0::real)]
   \<and> fst (fast_probe_oneline 8 (five_point_line (feed 150 [100, 1030, 110, 120, 130, 140])
                      (watch 2 [0, 1 / 2, 1, 3 / 2, 2, 21 / 10]))) = Ok ()
   \<and> results (snd (fast_probe_oneline 8 (five_point_line (feed 150 [100, 1030, 110, 120, 130, 140])
                      (watch 2 [0, 1 / 2, 1, 3 / 2, 2, 21 / 10]))))
       = [(0, 0, - (100 / 100)), (10, 0, - (110 / 100)), (20, 0, - (120 / 100)),
          (30, 0, - (130 / 100)), (40, 0, - (140 / 100))]
   \<and> tick (snd (fast_probe_oneline 8 (five_point_line (feed 150 [100, 1030, 110, 120, 130, 140])
                      (watch 2 [0, 1 / 2, 1, 3 / 2, 2, 21 / 10])))) = 6"
  using scan_line_schedule [where s = "five_point_line (feed 150 [100, 1030, 110, 120, 130, 140])
                      (watch 2 [0, 1 / 2, 1, 3 / 2, 2, 21 / 10])"
      and pts = "[(0, 7, 0), (10, 7, 0), (20, 7, 0), (30, 7, 0), (40, 7, 0)]"
      and ?t0.0 = 0 and T = 2 and fuel = 8 and r = "Ok ()"
      and s' = "snd (fast_probe_oneline 8 (five_point_line (feed 150 [100, 1030, 110, 120, 130, 140])
                      (watch 2 [0, 1 / 2, 1, 3 / 2, 2, 21 / 10])))"]
  by (simp add: scan_defs five_point_line_def)

text \<open>
  C6 as stated does not hold. A line of three points whose move spans 2 s, polled at 0, 0.9
  and 2.1 s: the scan of the line ends normally with two readings. Column 1, due from 1 s
  on, is read at 2.1 s, and column 2 has no reading.
\<close>

theorem scan_line_column_without_reading:
  "fst (fast_probe_oneline 8 (three_point_line (feed 150 []) (watch 2 [0, 9 / 10, 21 / 10]))) = Ok ()
   \<and> results (snd (fast_probe_oneline 8 (three_point_line (feed 150 []) (watch 2 [0, 9 / 10, 21 / 10]))))
       = [(0, 0, - (150 / 100)), (10, 0, - (150 / 100))]
   \<and> tick (snd (fast_probe_oneline 8 (three_point_line (feed 150 []) (watch 2 [0, 9 / 10, 21 / 10])))) = 3"
  by (simp add: scan_defs three_point_line_def)

section \<open>Fallback from continuous scanning\<close>

lemma scan_loop_nmech:
  "scan_loop fuel pts T t0 (est, k) s = (r, s') \<Longrightarrow> nmech s' = nmech s"
  using scan_loop_exact[of fuel pts T t0 est k s r s'] by blast

lemma manual_move_nmech: "nmech (manual_move c s) = nmech s"
  by (simp add: manual_move_def)

lemma fast_probe_oneline_nmech:
  "fast_probe_oneline fuel s = (r, s') \<Longrightarrow> nmech s' = nmech s"
  unfolding fast_probe_oneline_def Let_def
  by (auto split: if_splits option.splits dest!: scan_loop_nmech simp: manual_move_nmech)

lemma fast_probe_lines_nmech:
  "fast_probe_lines fuel polls s = (r, s') \<Longrightarrow> nmech s' = nmech s"
proof (induction fuel arbitrary: s)
  case 0
  then show ?case by (auto simp: fast_probe_lines.simps split: if_splits)
next
  case (Suc fuel)
  obtain r1 s1 where o: "fast_probe_oneline polls s = (r1, s1)" by (cases "fast_probe_oneline polls s")
  from fast_probe_oneline_nmech[OF o] have n: "nmech s1 = nmech s" .
  from Suc.prems show ?case
    unfolding fast_probe_lines.simps o
    using n Suc.IH by (cases r1) (auto split: if_splits)
qed

lemma fast_probe_nmech:
  assumes "fast_probe fuel s = (r, s')"
  shows "nmech s' = nmech s"
proof -
  define s2 where "s2 = (manual_move (None, None, Some (horizontal_move_z s)) s)\<lparr>results := []\<rparr>"
  have s2: "nmech s2 = nmech s" by (simp add: s2_def manual_move_nmech)
  obtain r1 s3 where l: "fast_probe_lines fuel fuel s2 = (r1, s3)" by (cases "fast_probe_lines fuel fuel s2")
  from fast_probe_lines_nmech[OF l] s2 have "nmech s3 = nmech s" by simp
  with assms show ?thesis
    unfolding fast_probe_def Let_def s2_def[symmetric] l bindR_def
    by (cases r1) (auto split: sum.splits)
qed

lemma multi_probe_end_nmech: "nmech (snd (multi_probe_end s)) = nmech s"
  by (simp add: multi_probe_end_def mcu_multi_probe_end_cases Let_def BD_Sensor_Read_env
        BD_acquire_def I2C_BD_send_def I2C_BD_receive_def respond_def split: result.split)

lemma try_block_nmech:
  assumes "bindR (fast_probe fuel s) (\<lambda>r. multi_probe_end) = (r, s')"
  shows "nmech s' = nmech s"
proof -
  obtain r1 s1 where f: "fast_probe fuel s = (r1, s1)" by (cases "fast_probe fuel s")
  from fast_probe_nmech[OF f] have "nmech s1 = nmech s" .
  with assms multi_probe_end_nmech[of s1] show ?thesis
    unfolding f bindR_def by (cases r1) (auto simp: prod_eq_iff)
qed

text \<open>
  C7 as the code has it. In an automatic \<^verbatim>\<open>BED_MESH_CALIBRATE\<close>, after the session is
  begun: when \<^verbatim>\<open>no_stop_probe\<close> is not configured, every point is probed with
  \<^verbatim>\<open>run_probe\<close>; when it is, the continuous scan is tried, and if the scan or the end of
  the session after it raises \<^verbatim>\<open>AttributeError\<close> the exception is caught and the points
  without a result are probed with \<^verbatim>\<open>run_probe\<close>, from the state the exception left.
  Any other exception of the scan goes out of \<^verbatim>\<open>start_probe\<close> as it is: no point is
  probed mechanically and the batch is over.
\<close>

theorem start_probe_fallback:
  assumes "\<not> manual_probe_active s" and "probe_method g = ''automatic''"
    and "command g = ''BED_MESH_CALIBRATE''"
    and "s4 = multi_probe_begin (s\<lparr>results := [],
            horizontal_move_z := (case horizontal_move_z_arg g of None \<Rightarrow> default_horizontal_move_z s | Some z \<Rightarrow> z),
            probe_offsets := offsets s\<rparr>)"
    and "\<not> horizontal_move_z s4 < pz (probe_offsets s4)"
    and "bindR (fast_probe fuel s4) (\<lambda>r. multi_probe_end) = (r, s5)"
  shows "(no_stop_probe s = None \<longrightarrow>
            start_probe fuel g s = bindR (probe_points_loop fuel g s4) (\<lambda>u. multi_probe_end))
       \<and> (no_stop_probe s \<noteq> None \<longrightarrow>
            (r = Raise AttributeError \<longrightarrow>
               start_probe fuel g s = bindR (probe_points_loop fuel g s5) (\<lambda>u. multi_probe_end))
          \<and> (\<forall>e. r = Raise e \<and> e \<noteq> AttributeError \<longrightarrow>
               start_probe fuel g s = (Raise e, s5) \<and> nmech s5 = nmech s)
          \<and> (\<forall>u. r = Ok u \<longrightarrow> start_probe fuel g s = (Ok (), s5)))"
proof -
  have b: "no_stop_probe (multi_probe_begin t) = no_stop_probe t"
    "horizontal_move_z (multi_probe_begin t) = horizontal_move_z t"
    "probe_offsets (multi_probe_begin t) = probe_offsets t"
    "nmech (multi_probe_begin t) = nmech t" for t
    by (simp_all add: multi_probe_begin_def mcu_multi_probe_begin_def)
  have n4: "no_stop_probe s4 = no_stop_probe s" "nmech s4 = nmech s"
    by (simp_all add: assms(4) b)
  have hz: "\<not> (case horizontal_move_z_arg g of None \<Rightarrow> default_horizontal_move_z s | Some z \<Rightarrow> z) < pz (offsets s)"
    using assms(5) by (cases "horizontal_move_z_arg g") (simp_all add: assms(4) b)
  have sp: "start_probe fuel g s =
      bindR (fast_attempt fuel s4)
        (\<lambda>returned s'. if returned then (Ok (), s') else bindR (probe_points_loop fuel g s') (\<lambda>u. multi_probe_end))"
    using assms(1,2,3) hz
    by (cases "horizontal_move_z_arg g") (simp_all add: start_probe_def Let_def assms(4))
  have none: "no_stop_probe s = None \<Longrightarrow> fast_attempt fuel s4 = (Ok False, s4)"
    by (simp add: fast_attempt_def n4)
  have some: "no_stop_probe s \<noteq> None \<Longrightarrow> fast_attempt fuel s4 =
      (case r of Raise e \<Rightarrow> if e = AttributeError then (Ok False, s5) else (Raise e, s5)
               | Spin \<Rightarrow> (Spin, s5) | Ok u \<Rightarrow> (Ok True, s5))"
    by (auto simp: fast_attempt_def n4 assms(6) split: option.splits result.splits)
  from try_block_nmech[OF assms(6)] n4 have nm: "nmech s5 = nmech s" by simp
  show ?thesis
    using none some nm by (auto simp: sp bindR_def)
qed


lemmas start_probe_defs =
  start_probe_def fast_attempt_def fast_probe_def fast_probe_lines.simps
  probe_points_loop.simps move_next_def run_probe_defs session_defs scan_defs
  calc_mean_def mesh_calibrate_def three_point_line_def

text \<open>
  The second poll of the scan raises \<^verbatim>\<open>AttributeError\<close>, after column 0 was read: the
  two points left are probed one by one and the batch ends normally with three results.
\<close>

theorem start_probe_fallback_witness:
  "fst (bindR (fast_probe 8 (multi_probe_begin
          (three_point_line (feed 150 [])
             (\<lambda>k. (watch 2 [0, 1, 2, 21 / 10] k)\<lparr>fault := (if k = 1 then Some AttributeError else None)\<rparr>))))
        (\<lambda>r. multi_probe_end)) = Raise AttributeError
   \<and> fst (start_probe 8 mesh_calibrate
        (three_point_line (feed 150 [])
           (\<lambda>k. (watch 2 [0, 1, 2, 21 / 10] k)\<lparr>fault := (if k = 1 then Some AttributeError else None)\<rparr>))) = Ok ()
   \<and> results (snd (start_probe 8 mesh_calibrate
        (three_point_line (feed 150 [])
           (\<lambda>k. (watch 2 [0, 1, 2, 21 / 10] k)\<lparr>fault := (if k = 1 then Some AttributeError else None)\<rparr>))))
       = [(0, 0, 35 / 10), (10, 0, 35 / 10), (20, 0, 35 / 10)]"
  using start_probe_fallback [of
      "three_point_line (feed 150 [])
         (\<lambda>k. (watch 2 [0, 1, 2, 21 / 10] k)\<lparr>fault := (if k = 1 then Some AttributeError else None)\<rparr>)"
      mesh_calibrate
      "multi_probe_begin
          (three_point_line (feed 150 [])
             (\<lambda>k. (watch 2 [0, 1, 2, 21 / 10] k)\<lparr>fault := (if k = 1 then Some AttributeError else None)\<rparr>))"
      8 "Raise AttributeError"]
  by (simp add: start_probe_defs)

text \<open>
  C7 as stated does not hold. The sensor answers the first read of the scan and then reports
  1024 to every query: the second read of the scan raises the data error, which
  \<^verbatim>\<open>start_probe\<close> does not catch. It fails with that error, with one result, the
  session still pending and no point probed by \<^verbatim>\<open>run_probe\<close>.
\<close>

theorem start_probe_sensor_fault_aborts:
  "fst (start_probe 8 mesh_calibrate (three_point_line (feed 1024 [150]) (watch 2 [0, 1, 2, 21 / 10])))
     = Raise (SensorDataError (1024 / 100))
   \<and> results (snd (start_probe 8 mesh_calibrate (three_point_line (feed 1024 [150]) (watch 2 [0, 1, 2, 21 / 10]))))
     = [(0, 0, 35 / 10)]
   \<and> nmech (snd (start_probe 8 mesh_calibrate (three_point_line (feed 1024 [150]) (watch 2 [0, 1, 2, 21 / 10])))) = 0
   \<and> nrecv (snd (start_probe 8 mesh_calibrate (three_point_line (feed 1024 [150]) (watch 2 [0, 1, 2, 21 / 10])))) = 3
   \<and> multi_probe_pending (snd (start_probe 8 mesh_calibrate (three_point_line (feed 1024 [150]) (watch 2 [0, 1, 2, 21 / 10]))))"
  by (simp add: start_probe_defs)

end
